theory Spec2Isabelle
  imports Main "HOL-Library.Sublist"
begin

chapter \<open>Schema tooling of rep-attestation-tools-evm-solidity\<close>

text \<open>
  A shallow embedding of the TypeScript sources: the schema UID helpers
  (\<^verbatim>\<open>utils/easTools.ts\<close>, \<^verbatim>\<open>utils/basTools.ts\<close>), the DID index utilities
  (\<^verbatim>\<open>utils/did-utils.ts\<close>) and the JSON-Schema-to-ABI generators
  (\<^verbatim>\<open>tasks/generate-eas-object.ts\<close>, \<^verbatim>\<open>tasks/generate-bas-object.ts\<close>).

  A JavaScript string is modelled as an Isabelle \<^typ>\<open>string\<close>: a list of code units,
  each in the range U+0000 .. U+00FF. Exceptions are values: a function that can throw
  returns \<open>error + 'a\<close>, with \<open>Inl\<close> for the exception.
\<close>

section \<open>Definitions\<close>

subsection \<open>JavaScript strings\<close>

datatype error = TypeError | Error string

text \<open>\<^verbatim>\<open>s.startsWith(p)\<close> is \<^term>\<open>prefix p s\<close>.\<close>

definition startsWith :: "string \<Rightarrow> string \<Rightarrow> bool" where
  "startsWith s p = prefix p s"

text \<open>
  \<^verbatim>\<open>s.split(sep)\<close> for a separator of one character: the pieces between the
  occurrences of the separator, in order; there is always at least one piece.
\<close>

fun split :: "string \<Rightarrow> char \<Rightarrow> string list" where
  "split [] sep = [[]]"
| "split (c # cs) sep =
     (if c = sep then [] # split cs sep
      else (case split cs sep of p # ps \<Rightarrow> (c # p) # ps | [] \<Rightarrow> [[c]]))"

text \<open>\<^verbatim>\<open>parts.join(sep)\<close>.\<close>

fun join :: "string list \<Rightarrow> string \<Rightarrow> string" where
  "join [] sep = []"
| "join [x] sep = x"
| "join (x # y # ys) sep = x @ sep @ join (y # ys) sep"

text \<open>
  \<^verbatim>\<open>s.toLowerCase()\<close> on code units up to U+00FF: the letters A to Z, and the letters
  U+00C0 to U+00DE except the multiplication sign U+00D7, move up by \<open>0x20\<close>.
\<close>

definition toLowerCase_char :: "char \<Rightarrow> char" where
  "toLowerCase_char c =
     (let n = (of_char c :: nat)
      in if (65 \<le> n \<and> n \<le> 90) \<or> (192 \<le> n \<and> n \<le> 222 \<and> n \<noteq> 215)
         then char_of (n + 32) else c)"

definition toLowerCase :: "string \<Rightarrow> string" where
  "toLowerCase s = map toLowerCase_char s"

subsection \<open>Schema UID formatting (easTools.ts and basTools.ts, the same text in both)\<close>

text \<open>
  \<^verbatim>\<open>
  export function formatSchemaUID(schemaUID: string): string {
    if (!schemaUID) return '';
    return schemaUID.startsWith('0x') ? schemaUID : `0x${schemaUID}`;
  }
  \<close>
  For a string, \<^verbatim>\<open>!schemaUID\<close> holds exactly when it is empty.
\<close>

definition formatSchemaUID :: "string \<Rightarrow> string" where
  "formatSchemaUID schemaUID =
     (if schemaUID = [] then []
      else if startsWith schemaUID ''0x'' then schemaUID else ''0x'' @ schemaUID)"

subsection \<open>Bytes and hexadecimal text\<close>

text \<open>
  A byte (an element of a \<^verbatim>\<open>Uint8Array\<close>) is an 8-bit value; it is modelled by the 8-bit
  type \<^typ>\<open>char\<close>, whose constructor \<open>Char\<close> lists the eight bits, least significant
  first. So \<open>CHR 0x01\<close> is the byte 1 and \<open>CHR ''a''\<close> the byte 0x61.
\<close>

type_synonym byte = char

fun bits_of_byte :: "byte \<Rightarrow> bool list" where
  "bits_of_byte (Char b0 b1 b2 b3 b4 b5 b6 b7) = [b0, b1, b2, b3, b4, b5, b6, b7]"

fun bytes_of_bits :: "bool list \<Rightarrow> byte list" where
  "bytes_of_bits (b0 # b1 # b2 # b3 # b4 # b5 # b6 # b7 # rest) =
     Char b0 b1 b2 b3 b4 b5 b6 b7 # bytes_of_bits rest"
| "bytes_of_bits _ = []"

text \<open>The value of a hexadecimal digit as four bits, least significant first.\<close>

fun nibble_of_hex :: "char \<Rightarrow> bool list option" where
  "nibble_of_hex c =
     (if c = CHR ''0'' then Some [False, False, False, False]
      else if c = CHR ''1'' then Some [True, False, False, False]
      else if c = CHR ''2'' then Some [False, True, False, False]
      else if c = CHR ''3'' then Some [True, True, False, False]
      else if c = CHR ''4'' then Some [False, False, True, False]
      else if c = CHR ''5'' then Some [True, False, True, False]
      else if c = CHR ''6'' then Some [False, True, True, False]
      else if c = CHR ''7'' then Some [True, True, True, False]
      else if c = CHR ''8'' then Some [False, False, False, True]
      else if c = CHR ''9'' then Some [True, False, False, True]
      else if c = CHR ''a'' \<or> c = CHR ''A'' then Some [False, True, False, True]
      else if c = CHR ''b'' \<or> c = CHR ''B'' then Some [True, True, False, True]
      else if c = CHR ''c'' \<or> c = CHR ''C'' then Some [False, False, True, True]
      else if c = CHR ''d'' \<or> c = CHR ''D'' then Some [True, False, True, True]
      else if c = CHR ''e'' \<or> c = CHR ''E'' then Some [False, True, True, True]
      else if c = CHR ''f'' \<or> c = CHR ''F'' then Some [True, True, True, True]
      else None)"

fun hex_of_nibble :: "bool \<Rightarrow> bool \<Rightarrow> bool \<Rightarrow> bool \<Rightarrow> char" where
  "hex_of_nibble False False False False = CHR ''0''"
| "hex_of_nibble True False False False = CHR ''1''"
| "hex_of_nibble False True False False = CHR ''2''"
| "hex_of_nibble True True False False = CHR ''3''"
| "hex_of_nibble False False True False = CHR ''4''"
| "hex_of_nibble True False True False = CHR ''5''"
| "hex_of_nibble False True True False = CHR ''6''"
| "hex_of_nibble True True True False = CHR ''7''"
| "hex_of_nibble False False False True = CHR ''8''"
| "hex_of_nibble True False False True = CHR ''9''"
| "hex_of_nibble False True False True = CHR ''a''"
| "hex_of_nibble True True False True = CHR ''b''"
| "hex_of_nibble False False True True = CHR ''c''"
| "hex_of_nibble True False True True = CHR ''d''"
| "hex_of_nibble False True True True = CHR ''e''"
| "hex_of_nibble True True True True = CHR ''f''"

fun hex_of_byte :: "byte \<Rightarrow> string" where
  "hex_of_byte (Char b0 b1 b2 b3 b4 b5 b6 b7) =
     [hex_of_nibble b4 b5 b6 b7, hex_of_nibble b0 b1 b2 b3]"

text \<open>\<^verbatim>\<open>ethers.hexlify\<close>: \<open>0x\<close> and two lower-case digits for each byte.\<close>

definition hexlify :: "byte list \<Rightarrow> string" where
  "hexlify bs = ''0x'' @ concat (map hex_of_byte bs)"

fun bytes_of_hex :: "string \<Rightarrow> byte list" where
  "bytes_of_hex (h # l # rest) =
     (case (nibble_of_hex h, nibble_of_hex l) of
        (Some [h0, h1, h2, h3], Some [l0, l1, l2, l3]) \<Rightarrow>
          Char l0 l1 l2 l3 h0 h1 h2 h3 # bytes_of_hex rest
      | _ \<Rightarrow> [])"
| "bytes_of_hex _ = []"

text \<open>\<^verbatim>\<open>ethers.getBytes\<close> on a \<open>0x\<close>-prefixed string of hexadecimal digit pairs.\<close>

definition getBytes :: "string \<Rightarrow> byte list" where
  "getBytes hex = bytes_of_hex (drop 2 hex)"

text \<open>
  \<^verbatim>\<open>ethers.toUtf8Bytes\<close>: a code unit \<open>c < 0x80\<close> is one byte; a code unit
  \<open>0x80 \<le> c < 0x800\<close> is the two bytes \<open>(c >> 6) | 0xc0\<close> and \<open>(c & 0x3f) | 0x80\<close>.
  (The strings of this model have no code unit above \<open>0xff\<close>.)
\<close>

fun utf8_of_char :: "char \<Rightarrow> byte list" where
  "utf8_of_char (Char b0 b1 b2 b3 b4 b5 b6 False) = [Char b0 b1 b2 b3 b4 b5 b6 False]"
| "utf8_of_char (Char b0 b1 b2 b3 b4 b5 b6 True) =
     [Char b6 True False False False False True True, Char b0 b1 b2 b3 b4 b5 False True]"

definition toUtf8Bytes :: "string \<Rightarrow> byte list" where
  "toUtf8Bytes str = concat (map utf8_of_char str)"

subsection \<open>Keccak-256 (\<^verbatim>\<open>ethers.keccak256\<close>)\<close>

text \<open>
  The hash function of the \<^verbatim>\<open>ethers\<close> library is Keccak-256 as submitted to the SHA-3
  competition: the sponge over the permutation Keccak-f[1600] with rate 1088 bits
  (136 bytes), padding \<open>pad10*1\<close> without a domain suffix, and 256 bits of output.
  The state is a list of 25 lanes, lane \<open>(x, y)\<close> at index \<open>x + 5 * y\<close>; a lane is a list of
  64 bits, least significant first.
\<close>

type_synonym lane = "bool list"

fun xorl :: "lane \<Rightarrow> lane \<Rightarrow> lane" where
  "xorl (True # as) (True # bs) = False # xorl as bs"
| "xorl (True # as) (False # bs) = True # xorl as bs"
| "xorl (False # as) (True # bs) = True # xorl as bs"
| "xorl (False # as) (False # bs) = False # xorl as bs"
| "xorl _ _ = []"

text \<open>\<open>chil a b c\<close> is \<open>a XOR (NOT b AND c)\<close>, bit by bit.\<close>

fun chil :: "lane \<Rightarrow> lane \<Rightarrow> lane \<Rightarrow> lane" where
  "chil (a # as) (True # bs) (c # cs) = a # chil as bs cs"
| "chil (a # as) (False # bs) (False # cs) = a # chil as bs cs"
| "chil (True # as) (False # bs) (True # cs) = False # chil as bs cs"
| "chil (False # as) (False # bs) (True # cs) = True # chil as bs cs"
| "chil _ _ _ = []"

text \<open>
  Rotation of a lane towards the most significant bit by \<open>n\<close> positions: the last \<open>n\<close>
  bits of the list come first. \<open>rot_split k [] l\<close> is \<open>drop k l @ take k l\<close>.
\<close>

fun rot_split :: "nat \<Rightarrow> lane \<Rightarrow> lane \<Rightarrow> lane" where
  "rot_split 0 acc l = l @ rev acc"
| "rot_split (Suc k) acc [] = rev acc"
| "rot_split (Suc k) acc (x # xs) = rot_split k (x # acc) xs"

definition rol :: "nat \<Rightarrow> lane \<Rightarrow> lane" where
  "rol n l = rot_split (64 - n) [] l"

text \<open>Theta: the column parities, their combination, and its addition to every lane.\<close>

fun theta_c :: "lane list \<Rightarrow> lane list" where
  "theta_c (a0 # a1 # a2 # a3 # a4 # rest) =
     (case theta_c rest of
        [c0, c1, c2, c3, c4] \<Rightarrow> [xorl a0 c0, xorl a1 c1, xorl a2 c2, xorl a3 c3, xorl a4 c4]
      | _ \<Rightarrow> [a0, a1, a2, a3, a4])"
| "theta_c _ = []"

fun theta_d :: "lane list \<Rightarrow> lane list" where
  "theta_d [c0, c1, c2, c3, c4] =
     [xorl c4 (rol 1 c1), xorl c0 (rol 1 c2), xorl c1 (rol 1 c3),
      xorl c2 (rol 1 c4), xorl c3 (rol 1 c0)]"
| "theta_d _ = []"

fun theta_apply :: "lane list \<Rightarrow> lane list \<Rightarrow> lane list" where
  "theta_apply [d0, d1, d2, d3, d4] (a0 # a1 # a2 # a3 # a4 # rest) =
     xorl a0 d0 # xorl a1 d1 # xorl a2 d2 # xorl a3 d3 # xorl a4 d4
       # theta_apply [d0, d1, d2, d3, d4] rest"
| "theta_apply _ _ = []"

definition theta :: "lane list \<Rightarrow> lane list" where
  "theta st = theta_apply (theta_d (theta_c st)) st"

text \<open>
  Rho and pi: the lane at index \<open>j\<close> of the result is the lane at index \<open>s\<close> of the
  argument rotated by \<open>r\<close>, for the \<open>j\<close>-th pair \<open>(s, r)\<close> of the table
  (lane \<open>(x, y)\<close> moves to \<open>(y, 2x + 3y)\<close>).
\<close>

definition rho_pi_table :: "(nat \<times> nat) list" where
  "rho_pi_table =
     [(0, 0), (6, 44), (12, 43), (18, 21), (24, 14),
      (3, 28), (9, 20), (10, 3), (16, 45), (22, 61),
      (1, 1), (7, 6), (13, 25), (19, 8), (20, 18),
      (4, 27), (5, 36), (11, 10), (17, 15), (23, 56),
      (2, 62), (8, 55), (14, 39), (15, 41), (21, 2)]"

definition rho_pi :: "lane list \<Rightarrow> lane list" where
  "rho_pi st = map (\<lambda>(s, r). rol r (st ! s)) rho_pi_table"

fun chi :: "lane list \<Rightarrow> lane list" where
  "chi (a # b # c # d # e # rest) =
     chil a b c # chil b c d # chil c d e # chil d e a # chil e a b # chi rest"
| "chi xs = []"

fun iota :: "lane \<Rightarrow> lane list \<Rightarrow> lane list" where
  "iota rc (a # rest) = xorl a rc # rest"
| "iota rc [] = []"

text \<open>A lane from its 16 hexadecimal digits, most significant digit first.\<close>

definition lane_of_hex :: "string \<Rightarrow> lane" where
  "lane_of_hex s =
     concat (map (\<lambda>c. case nibble_of_hex c of Some n \<Rightarrow> n | None \<Rightarrow> []) (rev s))"

definition round_constants :: "string list" where
  "round_constants =
    [''0000000000000001'', ''0000000000008082'', ''800000000000808a'', ''8000000080008000'',
     ''000000000000808b'', ''0000000080000001'', ''8000000080008081'', ''8000000000008009'',
     ''000000000000008a'', ''0000000000000088'', ''0000000080008009'', ''000000008000000a'',
     ''000000008000808b'', ''800000000000008b'', ''8000000000008089'', ''8000000000008003'',
     ''8000000000008002'', ''8000000000000080'', ''000000000000800a'', ''800000008000000a'',
     ''8000000080008081'', ''8000000000008080'', ''0000000080000001'', ''8000000080008008'']"

definition keccak_round :: "lane list \<Rightarrow> string \<Rightarrow> lane list" where
  "keccak_round st rc = iota (lane_of_hex rc) (chi (rho_pi (theta st)))"

definition keccak_f :: "lane list \<Rightarrow> lane list" where
  "keccak_f st = foldl keccak_round st round_constants"

fun lanes_of_bytes :: "byte list \<Rightarrow> lane list" where
  "lanes_of_bytes (c0 # c1 # c2 # c3 # c4 # c5 # c6 # c7 # rest) =
     concat (map bits_of_byte [c0, c1, c2, c3, c4, c5, c6, c7]) # lanes_of_bytes rest"
| "lanes_of_bytes _ = []"

fun xor_block :: "lane list \<Rightarrow> lane list \<Rightarrow> lane list" where
  "xor_block (a # as) (b # bs) = xorl a b # xor_block as bs"
| "xor_block as [] = as"
| "xor_block [] bs = []"

text \<open>
  The padding, on bytes: \<open>0x01\<close>, zero bytes, and \<open>0x80\<close> added into the last byte, up to
  the next multiple of 136 bytes (a single padding byte is \<open>0x81\<close>).
\<close>

definition keccak_pad :: "byte list \<Rightarrow> byte list" where
  "keccak_pad msg =
     (let q = 136 - length msg mod 136
      in msg @ (if q = 1 then [CHR 0x81]
                else CHR 0x01 # replicate (q - 2) (CHR 0x00) @ [CHR 0x80]))"

function absorb :: "lane list \<Rightarrow> byte list \<Rightarrow> lane list" where
  "absorb st bs =
     (if bs = [] then st
      else absorb (keccak_f (xor_block st (lanes_of_bytes (take 136 bs)))) (drop 136 bs))"
  by pat_completeness auto
termination
  by (relation "measure (\<lambda>(st, bs). length bs)") auto

definition keccak256_bytes :: "byte list \<Rightarrow> byte list" where
  "keccak256_bytes msg =
     bytes_of_bits
       (concat (take 4 (absorb (replicate 25 (replicate 64 False)) (keccak_pad msg))))"

text \<open>\<^verbatim>\<open>ethers.keccak256(data)\<close>: the digest as a \<open>0x\<close>-prefixed lower-case hex string.\<close>

definition keccak256 :: "byte list \<Rightarrow> string" where
  "keccak256 msg = hexlify (keccak256_bytes msg)"

subsection \<open>Addresses (\<^verbatim>\<open>ethers.getAddress\<close>)\<close>

text \<open>
  \<^verbatim>\<open>getAddress\<close> accepts a string that matches \<^verbatim>\<open>/^(0x)?[0-9a-fA-F]{40}$/\<close>, and returns
  it with the EIP-55 checksum capitalisation; an address that mixes upper-case and
  lower-case letters must already carry that capitalisation
  (\<^verbatim>\<open>"bad address checksum"\<close> otherwise). The library also accepts ICAP (\<^verbatim>\<open>XE...\<close>)
  addresses; these are not modelled and are rejected here like any other text.
\<close>

definition is_hex_digit :: "char \<Rightarrow> bool" where
  "is_hex_digit c = (nibble_of_hex c \<noteq> None)"

definition is_upper_hex :: "char \<Rightarrow> bool" where
  "is_upper_hex c = (c \<in> set ''ABCDEF'')"

definition is_lower_hex :: "char \<Rightarrow> bool" where
  "is_lower_hex c = (c \<in> set ''abcdef'')"

definition hex_lower :: "char \<Rightarrow> char" where
  "hex_lower c =
     (case nibble_of_hex c of Some [b0, b1, b2, b3] \<Rightarrow> hex_of_nibble b0 b1 b2 b3 | _ \<Rightarrow> c)"

definition hex_upper :: "char \<Rightarrow> char" where
  "hex_upper c =
     (if c = CHR ''a'' then CHR ''A'' else if c = CHR ''b'' then CHR ''B''
      else if c = CHR ''c'' then CHR ''C'' else if c = CHR ''d'' then CHR ''D''
      else if c = CHR ''e'' then CHR ''E'' else if c = CHR ''f'' then CHR ''F'' else c)"

text \<open>
  For the \<open>k\<close>-th byte of the hash of the 40 lower-case digits: digit \<open>2k\<close> is
  capitalised when the high nibble is at least 8, digit \<open>2k + 1\<close> when the low nibble is.
\<close>

fun checksum_flags :: "byte list \<Rightarrow> bool list" where
  "checksum_flags (Char b0 b1 b2 b3 b4 b5 b6 b7 # hashed) = b7 # b3 # checksum_flags hashed"
| "checksum_flags [] = []"

fun apply_flags :: "string \<Rightarrow> bool list \<Rightarrow> string" where
  "apply_flags (c # cs) (up # ups) = (if up then hex_upper c else c) # apply_flags cs ups"
| "apply_flags cs [] = cs"
| "apply_flags [] ups = []"

definition getChecksumAddress :: "string \<Rightarrow> string" where
  "getChecksumAddress address =
     (let chars = map hex_lower (drop 2 address);
          hashed = keccak256_bytes chars
      in ''0x'' @ apply_flags chars (checksum_flags hashed))"

definition getAddress :: "string \<Rightarrow> error + string" where
  "getAddress address =
     (let body = (if startsWith address ''0x'' then drop 2 address else address)
      in if length body = 40 \<and> list_all is_hex_digit body
         then
           (let address' = ''0x'' @ body; result = getChecksumAddress address'
            in if list_ex is_upper_hex body \<and> list_ex is_lower_hex body \<and> result \<noteq> address'
               then Inl (Error ''bad address checksum'')
               else Inr result)
         else Inl (Error ''invalid address''))"

subsection \<open>Schema UID calculation\<close>

text \<open>
  \<^verbatim>\<open>ethers.solidityPacked(['string', 'address', 'bool'], [schema, resolverAddress, revocable])\<close>:
  the UTF-8 bytes of the string, the 20 bytes of the address, and one byte for the
  boolean, with nothing between them. (The library returns the bytes as a hex string;
  the model keeps the bytes.)
\<close>

definition solidityPacked :: "string \<Rightarrow> string \<Rightarrow> bool \<Rightarrow> error + byte list" where
  "solidityPacked schema resolverAddress revocable =
     (case getAddress resolverAddress of
        Inl e \<Rightarrow> Inl e
      | Inr a \<Rightarrow>
          Inr (toUtf8Bytes schema @ getBytes a
                 @ getBytes (if revocable then ''0x01'' else ''0x00'')))"

text \<open>
  \<^verbatim>\<open>utils/easTools.ts\<close>:
  \<^verbatim>\<open>
  export function calculateSchemaUID(schema: string, resolverAddress: string, revocable: boolean): string {
    const packed = ethers.solidityPacked(['string', 'address', 'bool'], [schema, resolverAddress, revocable]);
    return ethers.keccak256(packed);
  }
  \<close>
\<close>

definition calculateSchemaUID_easTools :: "string \<Rightarrow> string \<Rightarrow> bool \<Rightarrow> error + string" where
  "calculateSchemaUID_easTools schema resolverAddress revocable =
     (case solidityPacked schema resolverAddress revocable of
        Inl e \<Rightarrow> Inl e
      | Inr packed \<Rightarrow> Inr (keccak256 packed))"

text \<open>
  \<^verbatim>\<open>utils/basTools.ts\<close>:
  \<^verbatim>\<open>
  export function calculateSchemaUID(schema: string, resolverAddress: string, revocable: boolean): string {
    // Calculate UID using only the schema string
    return ethers.keccak256(ethers.toUtf8Bytes(schema));
  }
  \<close>
\<close>

definition calculateSchemaUID_basTools :: "string \<Rightarrow> string \<Rightarrow> bool \<Rightarrow> string" where
  "calculateSchemaUID_basTools schema resolverAddress revocable = keccak256 (toUtf8Bytes schema)"

subsection \<open>DID index addresses (utils/did-utils.ts)\<close>

text \<open>
  \<^verbatim>\<open>
  export function canonicalizeDID(did: string): string {
    if (!did.startsWith('did:')) {
      throw new Error('Invalid DID format: must start with "did:"')
    }
    const parts = did.split(':')
    if (parts.length < 3) {
      throw new Error('Invalid DID format: insufficient parts')
    }
    const method = parts[1]
    switch (method) {
      case 'web': {
        const hostAndPath = parts.slice(2).join(':')
        const [host, ...pathParts] = hostAndPath.split('/')
        const canonicalHost = host.toLowerCase()
        const path = pathParts.length > 0 ? '/' + pathParts.join('/') : ''
        return `did:web:${canonicalHost}${path}`
      }
      case 'pkh': {
        if (parts.length !== 5) {
          throw new Error('Invalid did:pkh format: must have 5 parts')
        }
        const [, , namespace, chainId, address] = parts
        return `did:pkh:${namespace}:${chainId}:${address.toLowerCase()}`
      }
      default:
        return did.toLowerCase()
    }
  }
  \<close>
\<close>

definition canonicalizeDID :: "string \<Rightarrow> error + string" where
  "canonicalizeDID did =
     (if \<not> startsWith did ''did:''
      then Inl (Error (''Invalid DID format: must start with '' @ [CHR 0x22] @ ''did:'' @ [CHR 0x22]))
      else
        (let parts = split did (CHR '':'')
         in if length parts < 3 then Inl (Error ''Invalid DID format: insufficient parts'')
            else
              (let method = parts ! 1
               in if method = ''web'' then
                    (let hostAndPath = join (drop 2 parts) '':'';
                         hp = split hostAndPath (CHR ''/'');
                         host = hd hp;
                         pathParts = tl hp;
                         canonicalHost = toLowerCase host;
                         path = (if length pathParts > 0 then ''/'' @ join pathParts ''/'' else [])
                     in Inr (''did:web:'' @ canonicalHost @ path))
                  else if method = ''pkh'' then
                    (if length parts \<noteq> 5
                     then Inl (Error ''Invalid did:pkh format: must have 5 parts'')
                     else Inr (''did:pkh:'' @ parts ! 2 @ '':'' @ parts ! 3 @ '':''
                                 @ toLowerCase (parts ! 4)))
                  else Inr (toLowerCase did))))"

text \<open>
  \<^verbatim>\<open>
  export function computeDidHash(did: string): string {
    const canonicalDid = canonicalizeDID(did)
    return keccak256(toUtf8Bytes(canonicalDid))
  }
  \<close>
  An exception of \<open>canonicalizeDID\<close> passes through.
\<close>

definition computeDidHash :: "string \<Rightarrow> error + string" where
  "computeDidHash did =
     (case canonicalizeDID did of
        Inl e \<Rightarrow> Inl e
      | Inr canonicalDid \<Rightarrow> Inr (keccak256 (toUtf8Bytes canonicalDid)))"

text \<open>
  \<^verbatim>\<open>
  export function computeDidIndex(didHash: string): string {
    const prefix = 'DID:Solidity:Address:v1:'
    const combined = prefix + didHash.slice(2)
    const hash = keccak256(toUtf8Bytes(combined))
    const address = '0x' + hash.slice(-40)
    return address
  }
  \<close>
\<close>

definition computeDidIndex :: "string \<Rightarrow> string" where
  "computeDidIndex didHash =
     (let prefix = ''DID:Solidity:Address:v1:'';
          combined = prefix @ drop 2 didHash;
          hash = keccak256 (toUtf8Bytes combined);
          address = ''0x'' @ drop (length hash - 40) hash
      in address)"

text \<open>
  \<^verbatim>\<open>
  export function didToIndexAddress(did: string): string {
    const didHash = computeDidHash(did)
    return computeDidIndex(didHash)
  }
  \<close>
\<close>

definition didToIndexAddress :: "string \<Rightarrow> error + string" where
  "didToIndexAddress did =
     (case computeDidHash did of
        Inl e \<Rightarrow> Inl e
      | Inr didHash \<Rightarrow> Inr (computeDidIndex didHash))"

subsection \<open>JSON values as JavaScript sees them\<close>

text \<open>
  A parsed JSON document. A number is given by its canonical rendering \<open>String(n)\<close>
  (\<open>0\<close> for zero), which is all the code ever observes of it. The list of an object
  gives its own properties in the order in which JavaScript enumerates them
  (\<^verbatim>\<open>for ... in\<close>, \<^verbatim>\<open>Object.values\<close>, spread); for keys that are not array indices this is
  the order of the JSON text. Where a key occurs twice in a list, the first occurrence
  is the property. A value that may be \<^verbatim>\<open>undefined\<close> is a \<open>json option\<close>.
\<close>

datatype json =
    JNull
  | JBool bool
  | JNum string
  | is_JStr: JStr string
  | is_JArr: JArr "json list"
  | JObj "(string \<times> json) list"

fun truthy :: "json \<Rightarrow> bool" where
  "truthy JNull = False"
| "truthy (JBool b) = b"
| "truthy (JNum r) = (r \<noteq> ''0'')"
| "truthy (JStr s) = (s \<noteq> [])"
| "truthy (JArr xs) = True"
| "truthy (JObj kvs) = True"

fun truthy_opt :: "json option \<Rightarrow> bool" where
  "truthy_opt None = False"
| "truthy_opt (Some v) = truthy v"

text \<open>
  \<open>get v k\<close> is the property read \<^verbatim>\<open>v.k\<close> (or \<^verbatim>\<open>v?.k\<close>) for the keys the generators
  read (\<^verbatim>\<open>type\<close>, \<^verbatim>\<open>items\<close>, \<^verbatim>\<open>pattern\<close>, \<^verbatim>\<open>$ref\<close>, \<^verbatim>\<open>oneOf\<close>, \<^verbatim>\<open>anyOf\<close>, \<^verbatim>\<open>allOf\<close>, \<^verbatim>\<open>then\<close>,
  \<^verbatim>\<open>else\<close>, \<^verbatim>\<open>properties\<close>, \<^verbatim>\<open>x-oma3-skip-reason\<close>, \<^verbatim>\<open>x-oma3-abi\<close>): none of them is a
  property of a string, a number, a boolean or an array, nor inherited by an object, so
  the read gives the object's own property or \<^verbatim>\<open>undefined\<close>. A plain read on \<^verbatim>\<open>null\<close>
  throws; the functions below say so where the source reads without \<^verbatim>\<open>?.\<close>.
\<close>

fun get :: "json \<Rightarrow> string \<Rightarrow> json option" where
  "get (JObj kvs) k = map_of kvs k"
| "get _ k = None"

text \<open>The decimal rendering of an array index.\<close>

function string_of_nat :: "nat \<Rightarrow> string" where
  "string_of_nat n =
     (if n < 10 then [char_of (48 + n)]
      else string_of_nat (n div 10) @ [char_of (48 + n mod 10)])"
  by pat_completeness auto
termination
  by (relation "measure id") auto

text \<open>
  The own enumerable properties of a value, in enumeration order: those of an object,
  the elements of an array under their indices, the characters of a string under their
  indices, and none for the other values.
\<close>

fun enumerate_props :: "json \<Rightarrow> (string \<times> json) list" where
  "enumerate_props (JObj kvs) = kvs"
| "enumerate_props (JArr xs) = zip (map string_of_nat [0..<length xs]) xs"
| "enumerate_props (JStr s) = zip (map string_of_nat [0..<length s]) (map (\<lambda>c. JStr [c]) s)"
| "enumerate_props _ = []"

text \<open>
  \<^verbatim>\<open>String(v)\<close>, which is also the conversion \<^verbatim>\<open>RegExp.prototype.test\<close> applies to its
  argument. An array is its elements joined by commas, \<^verbatim>\<open>null\<close> elements rendered
  empty. An object is \<^verbatim>\<open>[object Object]\<close>, unless it has an own property \<^verbatim>\<open>toString\<close>
  (not callable in JSON data), in which case the conversion throws.
\<close>

fun js_String :: "json \<Rightarrow> error + string"
  and js_String_elems :: "json list \<Rightarrow> error + string list" where
  "js_String JNull = Inr ''null''"
| "js_String (JBool b) = Inr (if b then ''true'' else ''false'')"
| "js_String (JNum r) = Inr r"
| "js_String (JStr s) = Inr s"
| "js_String (JArr xs) =
     (case js_String_elems xs of Inl e \<Rightarrow> Inl e | Inr ss \<Rightarrow> Inr (join ss '',''))"
| "js_String (JObj kvs) =
     (if map_of kvs ''toString'' \<noteq> None then Inl TypeError else Inr ''[object Object]'')"
| "js_String_elems [] = Inr []"
| "js_String_elems (x # xs) =
     (case (if x = JNull then Inr [] else js_String x) of
        Inl e \<Rightarrow> Inl e
      | Inr s \<Rightarrow> (case js_String_elems xs of Inl e \<Rightarrow> Inl e | Inr ss \<Rightarrow> Inr (s # ss)))"

text \<open>Running a function that may throw over a list, left to right.\<close>

fun mapM :: "('a \<Rightarrow> error + 'b) \<Rightarrow> 'a list \<Rightarrow> error + 'b list" where
  "mapM f [] = Inr []"
| "mapM f (x # xs) =
     (case f x of
        Inl e \<Rightarrow> Inl e
      | Inr y \<Rightarrow> (case mapM f xs of Inl e \<Rightarrow> Inl e | Inr ys \<Rightarrow> Inr (y # ys)))"

text \<open>\<^verbatim>\<open>v.toLowerCase()\<close> on a value: only a string has the method.\<close>

fun toLowerCase_value :: "json \<Rightarrow> error + string" where
  "toLowerCase_value (JStr s) = Inr (toLowerCase s)"
| "toLowerCase_value _ = Inl TypeError"

subsection \<open>Type resolution (generate-eas-object.ts)\<close>

text \<open>
  \<^verbatim>\<open>
  function pickPriorityType(types: string[] | undefined): string | undefined {
    if (!types || types.length === 0) return undefined;
    const order = ["object", "array", "string", "integer", "number", "boolean"];
    for (const t of order) {
      if (types.includes(t)) return t;
    }
    return types[0];
  }
  \<close>
\<close>

definition order :: "string list" where
  "order = [''object'', ''array'', ''string'', ''integer'', ''number'', ''boolean'']"

definition pickPriorityType :: "string list \<Rightarrow> string option" where
  "pickPriorityType types =
     (case types of
        [] \<Rightarrow> None
      | first # _ \<Rightarrow>
          (case find (\<lambda>t. t \<in> set types) order of Some t \<Rightarrow> Some t | None \<Rightarrow> Some first))"

text \<open>
  \<^verbatim>\<open>
  function collectTypesFromBranches(s: JsonSchemaProperty): string[] {
    const out: string[] = [];
    const branches = [
      ...(Array.isArray(s.oneOf) ? s.oneOf : []),
      ...(Array.isArray(s.anyOf) ? s.anyOf : []),
      ...(Array.isArray(s.allOf) ? s.allOf : []),
    ];
    for (const b of branches) {
      if (typeof b?.type === "string") out.push(b.type);
      if (Array.isArray(b?.type)) out.push(...b.type);
      // Also check if/then/else within branches
      if (b?.then?.properties) {
        for (const prop of Object.values(b.then.properties)) {
          if (typeof prop?.type === "string") out.push(prop.type);
          if (Array.isArray(prop?.type)) out.push(...prop.type);
        }
      }
      if (b?.else?.properties) { ... the same for b.else.properties ... }
    }
    return out;
  }
  \<close>
  The result is typed \<^verbatim>\<open>string[]\<close> but holds whatever the \<^verbatim>\<open>type\<close> arrays hold.
\<close>

definition array_or_empty :: "json option \<Rightarrow> json list" where
  "array_or_empty v = (case v of Some (JArr xs) \<Rightarrow> xs | _ \<Rightarrow> [])"

definition types_of :: "json \<Rightarrow> json list" where
  "types_of b = (case get b ''type'' of Some (JStr t) \<Rightarrow> [JStr t] | Some (JArr ts) \<Rightarrow> ts | _ \<Rightarrow> [])"

definition conditional_types :: "json \<Rightarrow> string \<Rightarrow> json list" where
  "conditional_types b k =
     (case get b k of
        None \<Rightarrow> []
      | Some c \<Rightarrow>
          (case get c ''properties'' of
             None \<Rightarrow> []
           | Some ps \<Rightarrow>
               if truthy ps then concat (map (\<lambda>(name, prop). types_of prop) (enumerate_props ps))
               else []))"

definition branch_types :: "json \<Rightarrow> json list" where
  "branch_types b = types_of b @ conditional_types b ''then'' @ conditional_types b ''else''"

definition collectTypesFromBranches :: "json \<Rightarrow> json list" where
  "collectTypesFromBranches s =
     (let branches = array_or_empty (get s ''oneOf'') @ array_or_empty (get s ''anyOf'')
                       @ array_or_empty (get s ''allOf'')
      in concat (map branch_types branches))"

text \<open>
  \<^verbatim>\<open>
  function resolveJsonType(propSchema: JsonSchemaProperty): string | undefined {
    if (!propSchema) return undefined;
    // Direct type
    if (typeof propSchema.type === "string") return propSchema.type.toLowerCase();
    if (Array.isArray(propSchema.type)) {
      return pickPriorityType(propSchema.type.map(String).map(s => s.toLowerCase()));
    }
    // Check branches (oneOf/anyOf/allOf)
    const branchTypes = collectTypesFromBranches(propSchema).map(s => s.toLowerCase());
    if (branchTypes.length) return pickPriorityType(branchTypes);
    // Default to undefined (will be treated as string in fallback)
    return undefined;
  }
  \<close>
\<close>

definition resolveJsonType :: "json \<Rightarrow> error + string option" where
  "resolveJsonType propSchema =
     (if \<not> truthy propSchema then Inr None
      else
        (case get propSchema ''type'' of
           Some (JStr t) \<Rightarrow> Inr (Some (toLowerCase t))
         | Some (JArr ts) \<Rightarrow>
             (case mapM js_String ts of
                Inl e \<Rightarrow> Inl e
              | Inr ss \<Rightarrow> Inr (pickPriorityType (map toLowerCase ss)))
         | _ \<Rightarrow>
             (case mapM toLowerCase_value (collectTypesFromBranches propSchema) of
                Inl e \<Rightarrow> Inl e
              | Inr branchTypes \<Rightarrow>
                  if branchTypes \<noteq> [] then Inr (pickPriorityType branchTypes) else Inr None)))"

subsection \<open>ABI type mapping (generate-eas-object.ts)\<close>

text \<open>
  The test \<^verbatim>\<open>/0x[a-fA-F0-9]{64}/.test(s)\<close>: somewhere in \<open>s\<close> stands \<open>0x\<close> followed by 64
  hexadecimal digits.
\<close>

fun test_0x_hex64 :: "string \<Rightarrow> bool" where
  "test_0x_hex64 [] = False"
| "test_0x_hex64 (c # cs) =
     ((startsWith (c # cs) ''0x'' \<and> 64 \<le> length (drop 1 cs)
        \<and> list_all is_hex_digit (take 64 (drop 1 cs)))
      \<or> test_0x_hex64 cs)"

text \<open>
  \<^verbatim>\<open>
  function jsonTypeToAbi(effectiveType: string | undefined,
      ctx: { propName: string; pattern?: string; xAbi?: string }): string {
    // Explicit ABI hint takes precedence
    if (ctx.xAbi === "bytes32") return "bytes32";
    const t = effectiveType?.toLowerCase();
    switch (t) {
      case "object":
        return "string"; // NEW: serialize objects as strings for EAS ABI
      case "string":
        // Map hex hash pattern to bytes32 for EVM efficiency (permissive regex)
        if (ctx.pattern && /0x[a-fA-F0-9]{64}/.test(ctx.pattern)) {
          return 'bytes32';
        }
        return "string";
      case "integer":
      case "number":
        return "uint256";
      case "boolean":
        return "bool";
      default:
        // Fallback: treat as string (especially for conditional fields like `purpose`)
        return "string";
    }
  }
  \<close>
  The context is passed as its three fields.
\<close>

definition jsonTypeToAbi ::
  "string option \<Rightarrow> string \<Rightarrow> json option \<Rightarrow> json option \<Rightarrow> error + string" where
  "jsonTypeToAbi effectiveType propName pattern xAbi =
     (if xAbi = Some (JStr ''bytes32'') then Inr ''bytes32''
      else
        (let t = map_option toLowerCase effectiveType
         in if t = Some ''object'' then Inr ''string''
            else if t = Some ''string'' then
              (case pattern of
                 None \<Rightarrow> Inr ''string''
               | Some p \<Rightarrow>
                   if \<not> truthy p then Inr ''string''
                   else (case js_String p of
                           Inl e \<Rightarrow> Inl e
                         | Inr s \<Rightarrow> if test_0x_hex64 s then Inr ''bytes32'' else Inr ''string''))
            else if t = Some ''integer'' \<or> t = Some ''number'' then Inr ''uint256''
            else if t = Some ''boolean'' then Inr ''bool''
            else Inr ''string''))"

text \<open>
  The array branch shared by the mappers:
  \<^verbatim>\<open>
  switch (itemType.toLowerCase()) {
    case 'string': baseAbiType = 'string'; break;
    case 'integer': case 'number': baseAbiType = 'uint256'; break;
    case 'boolean': baseAbiType = 'bool'; break;
    case 'object': baseAbiType = 'string'; break; // Objects in arrays become strings
    default:
      console.warn(...);
      return null;
  }
  return `${baseAbiType}[]`; // e.g., string[]
  \<close>
\<close>

definition arrayAbiType :: "json \<Rightarrow> error + string option" where
  "arrayAbiType itemType =
     (case toLowerCase_value itemType of
        Inl e \<Rightarrow> Inl e
      | Inr t \<Rightarrow>
          if t = ''string'' then Inr (Some ''string[]'')
          else if t = ''integer'' \<or> t = ''number'' then Inr (Some ''uint256[]'')
          else if t = ''boolean'' then Inr (Some ''bool[]'')
          else if t = ''object'' then Inr (Some ''string[]'')
          else Inr None)"

text \<open>
  \<^verbatim>\<open>type.find(t => t !== "null") || type[0]\<close> for an array \<open>type\<close>: the first element
  that is not the string \<open>null\<close> if it is truthy, and the first element of the array
  (\<^verbatim>\<open>undefined\<close> for the empty array) otherwise.
\<close>

definition firstNonNull :: "json list \<Rightarrow> json option" where
  "firstNonNull ts =
     (case find (\<lambda>t. t \<noteq> JStr ''null'') ts of
        Some t \<Rightarrow> if truthy t then Some t else (case ts of [] \<Rightarrow> None | x # _ \<Rightarrow> Some x)
      | None \<Rightarrow> (case ts of [] \<Rightarrow> None | x # _ \<Rightarrow> Some x))"

subsection \<open>External schemas and their cache\<close>

text \<open>
  The file system and \<^verbatim>\<open>path.resolve\<close> are the environment of a run. For a full path,
  \<open>disk\<close> tells what \<^verbatim>\<open>fs.existsSync\<close>, \<^verbatim>\<open>fs.readFileSync\<close> and \<^verbatim>\<open>JSON.parse\<close> make of it:
  no file; a file that cannot be read or parsed (one of the two throws); or a file with
  its parsed document. The state of a run is the module-level \<^verbatim>\<open>schemaCache\<close>
  (\<^verbatim>\<open>new Map()\<close>) together with the trace of the file system calls made so far. Console
  output is not modelled.
\<close>

datatype disk_file = NoFile | BadFile | JsonFile json

record environment =
  path_resolve :: "string \<Rightarrow> string \<Rightarrow> string"
  disk :: "string \<Rightarrow> disk_file"

datatype disk_op = ExistsSync string | ReadFileSync string

record gen_state =
  schemaCache :: "string \<rightharpoonup> json"
  disk_ops :: "disk_op list"

text \<open>
  \<^verbatim>\<open>
  function loadExternalSchema(schemaPath: string, baseDir: string): any {
    if (schemaCache.has(schemaPath)) {
      return schemaCache.get(schemaPath);
    }
    const fullPath = path.resolve(baseDir, schemaPath);
    if (!fs.existsSync(fullPath)) {
      console.warn(`Warning: Referenced schema not found: ${fullPath}`);
      return null;
    }
    try {
      const content = fs.readFileSync(fullPath, 'utf-8');
      const schema = JSON.parse(content);
      schemaCache.set(schemaPath, schema);
      return schema;
    } catch (e: any) {
      console.warn(`Warning: Failed to load schema ${fullPath}: ${e.message}`);
      return null;
    }
  }
  \<close>
\<close>

definition loadExternalSchema ::
  "environment \<Rightarrow> string \<Rightarrow> string \<Rightarrow> gen_state \<Rightarrow> json \<times> gen_state" where
  "loadExternalSchema env schemaPath baseDir st =
     (case schemaCache st schemaPath of
        Some schema \<Rightarrow> (schema, st)
      | None \<Rightarrow>
          (let fullPath = path_resolve env baseDir schemaPath;
               st1 = st\<lparr>disk_ops := disk_ops st @ [ExistsSync fullPath]\<rparr>
           in case disk env fullPath of
                NoFile \<Rightarrow> (JNull, st1)
              | BadFile \<Rightarrow> (JNull, st1\<lparr>disk_ops := disk_ops st1 @ [ReadFileSync fullPath]\<rparr>)
              | JsonFile schema \<Rightarrow>
                  (schema, st1\<lparr>disk_ops := disk_ops st1 @ [ReadFileSync fullPath],
                                schemaCache := (schemaCache st1)(schemaPath \<mapsto> schema)\<rparr>)))"

subsection \<open>Reference resolution\<close>

text \<open>
  One step of the pointer walk,
  \<^verbatim>\<open>if (current && typeof current === 'object' && part in current) current = current[part]\<close>:
  an own property of an object, or an element of an array under its index. (A part that
  names an inherited member, such as \<^verbatim>\<open>toString\<close> or \<^verbatim>\<open>length\<close>, is not followed in the
  model; in the source such a walk ends in \<^verbatim>\<open>null\<close> or in a value without enumerable
  properties, and either way the property is mapped as if the reference had failed.)
\<close>

fun own_member :: "json \<Rightarrow> string \<Rightarrow> json option" where
  "own_member (JObj kvs) part = map_of kvs part"
| "own_member (JArr xs) part =
     (case find (\<lambda>i. string_of_nat i = part) [0..<length xs] of
        Some i \<Rightarrow> Some (xs ! i)
      | None \<Rightarrow> None)"
| "own_member _ part = None"

fun walk :: "json \<Rightarrow> string list \<Rightarrow> json" where
  "walk current [] = current"
| "walk current (part # parts) =
     (case own_member current part of Some v \<Rightarrow> walk v parts | None \<Rightarrow> JNull)"

definition resolvePointer :: "json \<Rightarrow> string \<Rightarrow> json" where
  "resolvePointer targetSchema pointer =
     (if \<not> startsWith pointer ''#/'' then JNull
      else walk targetSchema (split (drop 2 pointer) (CHR ''/'')))"

definition is_external :: "string \<Rightarrow> bool" where
  "is_external ref = (CHR ''#'' \<in> set ref \<and> \<not> startsWith ref ''#'')"

text \<open>\<^verbatim>\<open>const [filePath, fragment] = ref.split('#')\<close>.\<close>

definition ref_filePath :: "string \<Rightarrow> string" where
  "ref_filePath ref = (case split ref (CHR ''#'') of filePath # _ \<Rightarrow> filePath | [] \<Rightarrow> [])"

definition ref_fragment :: "string \<Rightarrow> string" where
  "ref_fragment ref =
     (case split ref (CHR ''#'') of _ # fragment # _ \<Rightarrow> fragment | _ \<Rightarrow> ''undefined'')"

text \<open>
  \<^verbatim>\<open>
  function resolveRef(ref: string, currentSchema: InputJsonSchema, baseDir: string): JsonSchemaProperty | null {
    if (!ref) return null;
    let targetSchema: any = currentSchema;
    let pointer: string = ref;
    // Check if it's an external reference (contains a file path before #)
    if (ref.includes('#') && !ref.startsWith('#')) {
      const [filePath, fragment] = ref.split('#');
      targetSchema = loadExternalSchema(filePath, baseDir);
      if (!targetSchema) {
        console.warn(`Warning: Could not load external schema for ref: ${ref}`);
        return null;
      }
      pointer = '#' + fragment;
    }
    if (!pointer.startsWith('#/')) {
      console.warn(`Warning: Unsupported $ref format: ${ref}`);
      return null;
    }
    const pathParts = pointer.substring(2).split('/'); // Remove "#/" and split
    let current: any = targetSchema;
    for (const part of pathParts) {
      if (current && typeof current === 'object' && part in current) {
        current = current[part];
      } else {
        console.warn(...);
        return null;
      }
    }
    return current as JsonSchemaProperty;
  }
  \<close>
\<close>

definition resolveRef ::
  "environment \<Rightarrow> string \<Rightarrow> json \<Rightarrow> string \<Rightarrow> gen_state \<Rightarrow> json \<times> gen_state" where
  "resolveRef env ref currentSchema baseDir st =
     (if ref = [] then (JNull, st)
      else if is_external ref then
        (case loadExternalSchema env (ref_filePath ref) baseDir st of
           (targetSchema, st') \<Rightarrow>
             if \<not> truthy targetSchema then (JNull, st')
             else (resolvePointer targetSchema (''#'' @ ref_fragment ref), st'))
      else (resolvePointer currentSchema ref, st))"

text \<open>
  \<^verbatim>\<open>{ ...resolved, ...localProps }\<close>: the properties of \<open>resolved\<close>, each with the local
  value where the local properties have the key, followed by the local properties under
  new keys.
\<close>

definition spread_merge ::
  "(string \<times> json) list \<Rightarrow> (string \<times> json) list \<Rightarrow> (string \<times> json) list" where
  "spread_merge resolved localProps =
     map (\<lambda>(k, v). (k, case map_of localProps k of Some v' \<Rightarrow> v' | None \<Rightarrow> v)) resolved
     @ filter (\<lambda>(k, v). map_of resolved k = None) localProps"

text \<open>
  \<^verbatim>\<open>
  function resolveProperty(prop: JsonSchemaProperty, currentSchema: InputJsonSchema, baseDir: string): JsonSchemaProperty {
    if (!prop) return prop;
    // If property has a $ref, resolve it and merge with any local overrides
    if (prop.$ref) {
      const resolved = resolveRef(prop.$ref, currentSchema, baseDir);
      if (resolved) {
        // Merge: local properties override resolved ones (except $ref itself)
        const { $ref, ...localProps } = prop;
        return { ...resolved, ...localProps };
      }
      // If resolution failed, return original (will likely fail type mapping)
      console.warn(`Warning: Failed to resolve $ref: ${prop.$ref}`);
    }
    return prop;
  }
  \<close>
  A truthy \<^verbatim>\<open>$ref\<close> that is not a string has no \<^verbatim>\<open>startsWith\<close>: \<open>resolveRef\<close> throws.
\<close>

definition mergeResolved :: "json \<Rightarrow> json \<Rightarrow> json" where
  "mergeResolved resolved prop =
     JObj (spread_merge (enumerate_props resolved)
             (filter (\<lambda>(k, v). k \<noteq> ''$ref'') (enumerate_props prop)))"

definition resolveProperty ::
  "environment \<Rightarrow> json \<Rightarrow> json \<Rightarrow> string \<Rightarrow> gen_state \<Rightarrow> error + json \<times> gen_state" where
  "resolveProperty env prop currentSchema baseDir st =
     (if \<not> truthy prop then Inr (prop, st)
      else
        (case get prop ''$ref'' of
           None \<Rightarrow> Inr (prop, st)
         | Some r \<Rightarrow>
             if \<not> truthy r then Inr (prop, st)
             else
               (case r of
                  JStr ref \<Rightarrow>
                    (case resolveRef env ref currentSchema baseDir st of
                       (resolved, st') \<Rightarrow>
                         if truthy resolved then Inr (mergeResolved resolved prop, st')
                         else Inr (prop, st'))
                | _ \<Rightarrow> Inl TypeError)))"

subsection \<open>The property mapper of generate-eas-object.ts\<close>

text \<open>
  The item type of an array property:
  \<^verbatim>\<open>
  let itemType: string | undefined;
  let resolvedItems = jsonProperty.items;
  if (jsonProperty.items) {
    // If items has a $ref, resolve it first
    if (jsonProperty.items.$ref && currentSchema && baseDir) {
      resolvedItems = resolveProperty(jsonProperty.items, currentSchema, baseDir);
    }
    // Try to resolve item type (handles nested schemas)
    if (resolvedItems) {
      itemType = resolveJsonType(resolvedItems);
      // Fallback to direct type if available
      if (!itemType && resolvedItems.type) {
        if (Array.isArray(resolvedItems.type)) {
          itemType = resolvedItems.type.find(t => t !== "null") || resolvedItems.type[0];
        } else {
          itemType = resolvedItems.type;
        }
      }
    }
  }
  \<close>
\<close>

definition resolveItems ::
  "environment \<Rightarrow> json \<Rightarrow> json \<Rightarrow> string \<Rightarrow> gen_state \<Rightarrow> error + json \<times> gen_state" where
  "resolveItems env items currentSchema baseDir st =
     (if truthy_opt (get items ''$ref'') \<and> truthy currentSchema \<and> baseDir \<noteq> []
      then resolveProperty env items currentSchema baseDir st
      else Inr (items, st))"

definition fallbackItemType :: "string option \<Rightarrow> json \<Rightarrow> json option" where
  "fallbackItemType itemType resolvedItems =
     (if (itemType = None \<or> itemType = Some []) \<and> truthy_opt (get resolvedItems ''type'')
      then (case get resolvedItems ''type'' of
              Some (JArr ts) \<Rightarrow> firstNonNull ts
            | other \<Rightarrow> other)
      else map_option JStr itemType)"

definition arrayItemType ::
  "environment \<Rightarrow> json \<Rightarrow> json \<Rightarrow> string \<Rightarrow> gen_state \<Rightarrow> error + json option \<times> gen_state" where
  "arrayItemType env jsonProperty currentSchema baseDir st =
     (case get jsonProperty ''items'' of
        None \<Rightarrow> Inr (None, st)
      | Some items \<Rightarrow>
          if \<not> truthy items then Inr (None, st)
          else
            (case resolveItems env items currentSchema baseDir st of
               Inl e \<Rightarrow> Inl e
             | Inr (resolvedItems, st') \<Rightarrow>
                 if \<not> truthy resolvedItems then Inr (None, st')
                 else
                   (case resolveJsonType resolvedItems of
                      Inl e \<Rightarrow> Inl e
                    | Inr itemType \<Rightarrow> Inr (fallbackItemType itemType resolvedItems, st'))))"

text \<open>
  \<^verbatim>\<open>
  function mapJsonSchemaPropertyToAbiType(jsonProperty, propName, currentSchema?, baseDir?): string | null {
    // Special case: purpose is always string for EAS stability (handles root-level conditionals)
    if (propName === "purpose") return "string";
    // Resolve the effective type (handles conditionals, unions, etc.)
    const effectiveType = resolveJsonType(jsonProperty);
    // Handle arrays specially
    if (effectiveType === 'array') {
      ... itemType as above ...
      if (itemType) {
        ... the switch on itemType.toLowerCase() ...
        return `${baseAbiType}[]`; // e.g., string[]
      } else {
        console.warn(...);
        return null;
      }
    }
    // Handling for scalar (non-array) types
    const xAbi = (jsonProperty as any)["x-oma3-abi"];
    return jsonTypeToAbi(effectiveType, { propName, pattern: jsonProperty.pattern, xAbi });
  }
  \<close>
\<close>

definition mapJsonSchemaPropertyToAbiType ::
  "environment \<Rightarrow> json \<Rightarrow> string \<Rightarrow> json \<Rightarrow> string \<Rightarrow> gen_state
     \<Rightarrow> error + string option \<times> gen_state" where
  "mapJsonSchemaPropertyToAbiType env jsonProperty propName currentSchema baseDir st =
     (if propName = ''purpose'' then Inr (Some ''string'', st)
      else
        (case resolveJsonType jsonProperty of
           Inl e \<Rightarrow> Inl e
         | Inr effectiveType \<Rightarrow>
             if effectiveType = Some ''array'' then
               (case arrayItemType env jsonProperty currentSchema baseDir st of
                  Inl e \<Rightarrow> Inl e
                | Inr (itemType, st') \<Rightarrow>
                    (case itemType of
                       None \<Rightarrow> Inr (None, st')
                     | Some it \<Rightarrow>
                         if \<not> truthy it then Inr (None, st')
                         else (case arrayAbiType it of
                                 Inl e \<Rightarrow> Inl e
                               | Inr abi \<Rightarrow> Inr (abi, st'))))
             else if jsonProperty = JNull then Inl TypeError
             else
               (case jsonTypeToAbi effectiveType propName (get jsonProperty ''pattern'')
                       (get jsonProperty ''x-oma3-abi'') of
                  Inl e \<Rightarrow> Inl e
                | Inr abi \<Rightarrow> Inr (Some abi, st))))"

subsection \<open>The schema string builder of generate-eas-object.ts\<close>

text \<open>
  \<^verbatim>\<open>
  function buildSchemaString(properties: { [key: string]: JsonSchemaProperty } | undefined,
      currentSchema: InputJsonSchema, baseDir: string): string {
    if (!properties) {
      return "";
    }
    const abiFields: string[] = [];
    for (const key in properties) {
      if (Object.prototype.hasOwnProperty.call(properties, key)) {
        // Resolve $ref if present
        const rawProperty = properties[key];
        const property = resolveProperty(rawProperty, currentSchema, baseDir);
        const skipReason = property["x-oma3-skip-reason"];
        if (skipReason === "metadata" || skipReason === "eas") {
          console.log(`Skipping field '${key}' due to x-oma3-skip-reason: ${skipReason}`);
          continue;
        }
        if (skipReason === "unused") {
          console.log(`Including reserved field '${key}' in schema (x-oma3-skip-reason: unused)`);
        }
        // Pass the whole property object to the mapping function (with context for $ref resolution)
        const abiType = mapJsonSchemaPropertyToAbiType(property, key, currentSchema, baseDir);
        if (abiType) {
          abiFields.push(`${abiType} ${key}`);
        }
      }
    }
    return abiFields.join(', ');
  }
  \<close>
  \<open>schemaField\<close> is the body of the loop: the entry it pushes, if any. The properties are
  the object's entries in enumeration order.
\<close>

definition skipped :: "json option \<Rightarrow> bool" where
  "skipped skipReason = (skipReason = Some (JStr ''metadata'') \<or> skipReason = Some (JStr ''eas''))"

definition abiField :: "string option \<Rightarrow> string \<Rightarrow> string option" where
  "abiField abiType key =
     (case abiType of
        None \<Rightarrow> None
      | Some t \<Rightarrow> if t = [] then None else Some (t @ '' '' @ key))"

definition schemaField ::
  "environment \<Rightarrow> json \<Rightarrow> string \<Rightarrow> string \<Rightarrow> json \<Rightarrow> gen_state
     \<Rightarrow> error + string option \<times> gen_state" where
  "schemaField env currentSchema baseDir key rawProperty st =
     (case resolveProperty env rawProperty currentSchema baseDir st of
        Inl e \<Rightarrow> Inl e
      | Inr (property, st1) \<Rightarrow>
          if property = JNull then Inl TypeError
          else if skipped (get property ''x-oma3-skip-reason'') then Inr (None, st1)
          else
            (case mapJsonSchemaPropertyToAbiType env property key currentSchema baseDir st1 of
               Inl e \<Rightarrow> Inl e
             | Inr (abiType, st2) \<Rightarrow> Inr (abiField abiType key, st2)))"

fun schemaFields ::
  "environment \<Rightarrow> json \<Rightarrow> string \<Rightarrow> (string \<times> json) list \<Rightarrow> string list \<Rightarrow> gen_state
     \<Rightarrow> error + string list \<times> gen_state" where
  "schemaFields env currentSchema baseDir [] abiFields st = Inr (abiFields, st)"
| "schemaFields env currentSchema baseDir ((key, rawProperty) # rest) abiFields st =
     (case schemaField env currentSchema baseDir key rawProperty st of
        Inl e \<Rightarrow> Inl e
      | Inr (entry, st') \<Rightarrow>
          schemaFields env currentSchema baseDir rest
            (case entry of None \<Rightarrow> abiFields | Some f \<Rightarrow> abiFields @ [f]) st')"

definition buildSchemaString ::
  "environment \<Rightarrow> (string \<times> json) list option \<Rightarrow> json \<Rightarrow> string \<Rightarrow> gen_state
     \<Rightarrow> error + string \<times> gen_state" where
  "buildSchemaString env properties currentSchema baseDir st =
     (case properties of
        None \<Rightarrow> Inr ([], st)
      | Some props \<Rightarrow>
          (case schemaFields env currentSchema baseDir props [] st of
             Inl e \<Rightarrow> Inl e
           | Inr (abiFields, st') \<Rightarrow> Inr (join abiFields '', '', st')))"

subsection \<open>The earlier generator without references (generate-eas-object.ts, first version)\<close>

text \<open>
  The repository also holds the earlier text of the EAS generator, which has no
  \<^verbatim>\<open>$ref\<close> support. Its \<open>pickPriorityType\<close>, \<open>collectTypesFromBranches\<close>, \<open>resolveJsonType\<close>
  and \<open>jsonTypeToAbi\<close> are the ones above, word for word. Its mapper reads the items
  directly, and its builder skips every field that has a truthy skip reason:
  \<^verbatim>\<open>
  function mapJsonSchemaPropertyToAbiType(jsonProperty: JsonSchemaProperty, propName: string): string | null {
    if (propName === "purpose") return "string";
    const effectiveType = resolveJsonType(jsonProperty);
    if (effectiveType === 'array') {
      let itemType: string | undefined;
      if (jsonProperty.items) {
        itemType = resolveJsonType(jsonProperty.items);
        if (!itemType && jsonProperty.items.type) { ... the same fallback ... }
      }
      if (itemType) { ... the same switch ... } else { console.warn(...); return null; }
    }
    const xAbi = (jsonProperty as any)["x-oma3-abi"];
    return jsonTypeToAbi(effectiveType, { propName, pattern: jsonProperty.pattern, xAbi });
  }

  function buildSchemaString(properties?: { [key: string]: JsonSchemaProperty }): string {
    if (!properties) {
      return "";
    }
    const abiFields: string[] = [];
    for (const key in properties) {
      if (Object.prototype.hasOwnProperty.call(properties, key)) {
        const property = properties[key];
        // Skip fields that have x-oma3-skip-reason (metadata, eas, computed, etc.)
        if (property["x-oma3-skip-reason"]) {
          console.log(...);
          continue;
        }
        // Pass the whole property object to the mapping function
        const abiType = mapJsonSchemaPropertyToAbiType(property, key);
        if (abiType) {
          abiFields.push(`${abiType} ${key}`);
        }
      }
    }
    return abiFields.join(', ');
  }
  \<close>
\<close>

definition mapJsonSchemaPropertyToAbiType_v1 :: "json \<Rightarrow> string \<Rightarrow> error + string option" where
  "mapJsonSchemaPropertyToAbiType_v1 jsonProperty propName =
     (if propName = ''purpose'' then Inr (Some ''string'')
      else
        (case resolveJsonType jsonProperty of
           Inl e \<Rightarrow> Inl e
         | Inr effectiveType \<Rightarrow>
             if effectiveType = Some ''array'' then
               (case get jsonProperty ''items'' of
                  None \<Rightarrow> Inr None
                | Some items \<Rightarrow>
                    if \<not> truthy items then Inr None
                    else
                      (case resolveJsonType items of
                         Inl e \<Rightarrow> Inl e
                       | Inr itemType \<Rightarrow>
                           (case fallbackItemType itemType items of
                              None \<Rightarrow> Inr None
                            | Some it \<Rightarrow> if \<not> truthy it then Inr None else arrayAbiType it)))
             else if jsonProperty = JNull then Inl TypeError
             else
               (case jsonTypeToAbi effectiveType propName (get jsonProperty ''pattern'')
                       (get jsonProperty ''x-oma3-abi'') of
                  Inl e \<Rightarrow> Inl e
                | Inr abi \<Rightarrow> Inr (Some abi))))"

definition schemaField_v1 :: "string \<Rightarrow> json \<Rightarrow> error + string option" where
  "schemaField_v1 key property =
     (if property = JNull then Inl TypeError
      else if truthy_opt (get property ''x-oma3-skip-reason'') then Inr None
      else
        (case mapJsonSchemaPropertyToAbiType_v1 property key of
           Inl e \<Rightarrow> Inl e
         | Inr abiType \<Rightarrow> Inr (abiField abiType key)))"

fun schemaFields_v1 :: "(string \<times> json) list \<Rightarrow> string list \<Rightarrow> error + string list" where
  "schemaFields_v1 [] abiFields = Inr abiFields"
| "schemaFields_v1 ((key, property) # rest) abiFields =
     (case schemaField_v1 key property of
        Inl e \<Rightarrow> Inl e
      | Inr entry \<Rightarrow>
          schemaFields_v1 rest (case entry of None \<Rightarrow> abiFields | Some f \<Rightarrow> abiFields @ [f]))"

definition buildSchemaString_v1 :: "(string \<times> json) list option \<Rightarrow> error + string" where
  "buildSchemaString_v1 properties =
     (case properties of
        None \<Rightarrow> Inr []
      | Some props \<Rightarrow>
          (case schemaFields_v1 props [] of
             Inl e \<Rightarrow> Inl e
           | Inr abiFields \<Rightarrow> Inr (join abiFields '', '')))"

subsection \<open>The property mapper of generate-bas-object.ts\<close>

text \<open>
  The BAS generator has its own copy of \<open>loadExternalSchema\<close>, \<open>resolveRef\<close> and
  \<open>resolveProperty\<close>, with the same text as above, and this mapper:
  \<^verbatim>\<open>
  function mapJsonSchemaPropertyToAbiType(jsonProperty, propName, currentSchema?, baseDir?): string | null {
    let typeToProcess: string;
    // Determine the primary type if jsonProperty.type is an array (e.g., ["string", "null"])
    if (Array.isArray(jsonProperty.type)) {
      typeToProcess = jsonProperty.type.find(t => t !== "null") || jsonProperty.type[0];
    } else if (jsonProperty.type) {
      typeToProcess = jsonProperty.type;
    } else {
      // No type defined, default to string
      typeToProcess = 'string';
    }
    const typeLower = typeToProcess.toLowerCase();
    if (typeLower === 'array') {
      let resolvedItems = jsonProperty.items;
      if (jsonProperty.items) {
        // If items has a $ref, resolve it first
        if (jsonProperty.items.$ref && currentSchema && baseDir) {
          resolvedItems = resolveProperty(jsonProperty.items, currentSchema, baseDir);
        }
        if (resolvedItems && resolvedItems.type) {
          // Get the type of the items within the array
          let itemSchemaType: string;
          if (Array.isArray(resolvedItems.type)) {
            itemSchemaType = resolvedItems.type.find(t => t !== "null") || resolvedItems.type[0];
          } else {
            itemSchemaType = resolvedItems.type;
          }
          ... the switch on itemSchemaType.toLowerCase() ...
          return `${baseAbiType}[]`; // e.g., string[]
        }
      }
      console.warn(...);
      return null;
    }
    // Handling for scalar (non-array) types
    switch (typeLower) {
      case 'string':
        // Map hex hash pattern to bytes32 for EVM efficiency
        if (jsonProperty.pattern && jsonProperty.pattern === '^0x[a-fA-F0-9]{64}$') {
          return 'bytes32';
        }
        return 'string';
      case 'integer': case 'number': return 'uint256';
      case 'boolean': return 'bool';
      case 'object': return 'string'; // Objects become JSON strings
      default:
        console.warn(...);
        return null;
    }
  }
  \<close>
  \<open>typeToProcess\<close> is \<^verbatim>\<open>undefined\<close> for an empty \<^verbatim>\<open>type\<close> array; \<^verbatim>\<open>toLowerCase\<close> then throws,
  as it does on a type that is not a string.
\<close>

definition typeToProcess :: "json \<Rightarrow> json option" where
  "typeToProcess jsonProperty =
     (case get jsonProperty ''type'' of
        Some (JArr ts) \<Rightarrow> firstNonNull ts
      | Some v \<Rightarrow> if truthy v then Some v else Some (JStr ''string'')
      | None \<Rightarrow> Some (JStr ''string''))"

definition scalarAbiType_bas :: "string \<Rightarrow> json option \<Rightarrow> string option" where
  "scalarAbiType_bas typeLower pattern =
     (if typeLower = ''string'' then
        (if pattern = Some (JStr ''^0x[a-fA-F0-9]{64}$'') then Some ''bytes32'' else Some ''string'')
      else if typeLower = ''integer'' \<or> typeLower = ''number'' then Some ''uint256''
      else if typeLower = ''boolean'' then Some ''bool''
      else if typeLower = ''object'' then Some ''string''
      else None)"

definition itemSchemaType :: "json \<Rightarrow> json option" where
  "itemSchemaType resolvedItems =
     (case get resolvedItems ''type'' of Some (JArr ts) \<Rightarrow> firstNonNull ts | other \<Rightarrow> other)"

definition mapJsonSchemaPropertyToAbiType_bas ::
  "environment \<Rightarrow> json \<Rightarrow> string \<Rightarrow> json \<Rightarrow> string \<Rightarrow> gen_state
     \<Rightarrow> error + string option \<times> gen_state" where
  "mapJsonSchemaPropertyToAbiType_bas env jsonProperty propName currentSchema baseDir st =
     (if jsonProperty = JNull then Inl TypeError
      else
        (case typeToProcess jsonProperty of
           None \<Rightarrow> Inl TypeError
         | Some tp \<Rightarrow>
             (case toLowerCase_value tp of
                Inl e \<Rightarrow> Inl e
              | Inr typeLower \<Rightarrow>
                  if typeLower = ''array'' then
                    (case get jsonProperty ''items'' of
                       None \<Rightarrow> Inr (None, st)
                     | Some items \<Rightarrow>
                         if \<not> truthy items then Inr (None, st)
                         else
                           (case resolveItems env items currentSchema baseDir st of
                              Inl e \<Rightarrow> Inl e
                            | Inr (resolvedItems, st') \<Rightarrow>
                                if truthy resolvedItems \<and> truthy_opt (get resolvedItems ''type'')
                                then
                                  (case itemSchemaType resolvedItems of
                                     None \<Rightarrow> Inl TypeError
                                   | Some it \<Rightarrow>
                                       (case arrayAbiType it of
                                          Inl e \<Rightarrow> Inl e
                                        | Inr abi \<Rightarrow> Inr (abi, st')))
                                else Inr (None, st')))
                  else Inr (scalarAbiType_bas typeLower (get jsonProperty ''pattern''), st))))"

subsection \<open>The generator read without its cache\<close>

text \<open>
  What a reference to an external schema path yields in a run that started with a given
  cache: the cached document if there is one, else the document on disk, else \<^verbatim>\<open>null\<close>.
  Over such a view of the external schemas the functions of the generator are functions
  of their arguments alone; the theorems below show that the stateful functions compute
  exactly these.
\<close>

definition cachedSchema :: "environment \<Rightarrow> string \<Rightarrow> (string \<rightharpoonup> json) \<Rightarrow> string \<Rightarrow> json" where
  "cachedSchema env baseDir cache schemaPath =
     (case cache schemaPath of
        Some schema \<Rightarrow> schema
      | None \<Rightarrow>
          (case disk env (path_resolve env baseDir schemaPath) of
             JsonFile schema \<Rightarrow> schema
           | _ \<Rightarrow> JNull))"

definition resolveRef_in :: "(string \<Rightarrow> json) \<Rightarrow> string \<Rightarrow> json \<Rightarrow> json" where
  "resolveRef_in view ref currentSchema =
     (if ref = [] then JNull
      else if is_external ref then
        (let targetSchema = view (ref_filePath ref)
         in if \<not> truthy targetSchema then JNull
            else resolvePointer targetSchema (''#'' @ ref_fragment ref))
      else resolvePointer currentSchema ref)"

definition resolveProperty_in :: "(string \<Rightarrow> json) \<Rightarrow> json \<Rightarrow> json \<Rightarrow> error + json" where
  "resolveProperty_in view prop currentSchema =
     (if \<not> truthy prop then Inr prop
      else
        (case get prop ''$ref'' of
           None \<Rightarrow> Inr prop
         | Some r \<Rightarrow>
             if \<not> truthy r then Inr prop
             else
               (case r of
                  JStr ref \<Rightarrow>
                    (let resolved = resolveRef_in view ref currentSchema
                     in if truthy resolved then Inr (mergeResolved resolved prop) else Inr prop)
                | _ \<Rightarrow> Inl TypeError)))"

definition resolveItems_in :: "(string \<Rightarrow> json) \<Rightarrow> json \<Rightarrow> json \<Rightarrow> string \<Rightarrow> error + json" where
  "resolveItems_in view items currentSchema baseDir =
     (if truthy_opt (get items ''$ref'') \<and> truthy currentSchema \<and> baseDir \<noteq> []
      then resolveProperty_in view items currentSchema
      else Inr items)"

definition arrayItemType_in ::
  "(string \<Rightarrow> json) \<Rightarrow> json \<Rightarrow> json \<Rightarrow> string \<Rightarrow> error + json option" where
  "arrayItemType_in view jsonProperty currentSchema baseDir =
     (case get jsonProperty ''items'' of
        None \<Rightarrow> Inr None
      | Some items \<Rightarrow>
          if \<not> truthy items then Inr None
          else
            (case resolveItems_in view items currentSchema baseDir of
               Inl e \<Rightarrow> Inl e
             | Inr resolvedItems \<Rightarrow>
                 if \<not> truthy resolvedItems then Inr None
                 else
                   (case resolveJsonType resolvedItems of
                      Inl e \<Rightarrow> Inl e
                    | Inr itemType \<Rightarrow> Inr (fallbackItemType itemType resolvedItems))))"

definition mapJsonSchemaPropertyToAbiType_in ::
  "(string \<Rightarrow> json) \<Rightarrow> json \<Rightarrow> string \<Rightarrow> json \<Rightarrow> string \<Rightarrow> error + string option" where
  "mapJsonSchemaPropertyToAbiType_in view jsonProperty propName currentSchema baseDir =
     (if propName = ''purpose'' then Inr (Some ''string'')
      else
        (case resolveJsonType jsonProperty of
           Inl e \<Rightarrow> Inl e
         | Inr effectiveType \<Rightarrow>
             if effectiveType = Some ''array'' then
               (case arrayItemType_in view jsonProperty currentSchema baseDir of
                  Inl e \<Rightarrow> Inl e
                | Inr itemType \<Rightarrow>
                    (case itemType of
                       None \<Rightarrow> Inr None
                     | Some it \<Rightarrow> if \<not> truthy it then Inr None else arrayAbiType it))
             else if jsonProperty = JNull then Inl TypeError
             else
               (case jsonTypeToAbi effectiveType propName (get jsonProperty ''pattern'')
                       (get jsonProperty ''x-oma3-abi'') of
                  Inl e \<Rightarrow> Inl e
                | Inr abi \<Rightarrow> Inr (Some abi))))"

text \<open>
  The outcome of one field: an exception, \<open>None\<close> for a field that is skipped or dropped,
  or the ABI type under which the field enters the schema string.
\<close>

definition fieldAbiType ::
  "(string \<Rightarrow> json) \<Rightarrow> json \<Rightarrow> string \<Rightarrow> string \<Rightarrow> json \<Rightarrow> error + string option" where
  "fieldAbiType view currentSchema baseDir key rawProperty =
     (case resolveProperty_in view rawProperty currentSchema of
        Inl e \<Rightarrow> Inl e
      | Inr property \<Rightarrow>
          if property = JNull then Inl TypeError
          else if skipped (get property ''x-oma3-skip-reason'') then Inr None
          else
            (case mapJsonSchemaPropertyToAbiType_in view property key currentSchema baseDir of
               Inl e \<Rightarrow> Inl e
             | Inr abiType \<Rightarrow>
                 Inr (case abiType of None \<Rightarrow> None | Some t \<Rightarrow> if t = [] then None else Some t)))"

text \<open>The surviving fields of a properties mapping, as pairs of name and ABI type.\<close>

definition survivors ::
  "(string \<Rightarrow> json) \<Rightarrow> json \<Rightarrow> string \<Rightarrow> (string \<times> json) list \<Rightarrow> (string \<times> string) list" where
  "survivors view currentSchema baseDir props =
     List.map_filter
       (\<lambda>(key, rawProperty).
          case fieldAbiType view currentSchema baseDir key rawProperty of
            Inr (Some t) \<Rightarrow> Some (key, t)
          | _ \<Rightarrow> None)
       props"

definition typeName :: "string \<times> string \<Rightarrow> string" where
  "typeName = (\<lambda>(key, t). t @ '' '' @ key)"

text \<open>
  A stateful result agrees with a cache-free one when it throws the same exception or
  returns the same value, and leaves the view of the external schemas as it was.
\<close>

definition agrees ::
  "environment \<Rightarrow> string \<Rightarrow> gen_state \<Rightarrow> error + 'a \<times> gen_state \<Rightarrow> error + 'a \<Rightarrow> bool" where
  "agrees env baseDir st r r' =
     (case r of
        Inl e \<Rightarrow> r' = Inl e
      | Inr (v, st') \<Rightarrow>
          r' = Inr v
          \<and> cachedSchema env baseDir (schemaCache st') = cachedSchema env baseDir (schemaCache st))"

subsection \<open>Counting the calls that go to the disk\<close>

text \<open>
  \<open>touches env baseDir p qs st\<close>: the calls \<^verbatim>\<open>loadExternalSchema(q, baseDir)\<close> are made one
  after the other for the paths \<open>q\<close> of \<open>qs\<close>, from the state \<open>st\<close>; the result is the number
  of those calls for the path \<open>p\<close> that made a file system call.
\<close>

fun touches :: "environment \<Rightarrow> string \<Rightarrow> string \<Rightarrow> string list \<Rightarrow> gen_state \<Rightarrow> nat" where
  "touches env baseDir p [] st = 0"
| "touches env baseDir p (q # qs) st =
     (case loadExternalSchema env q baseDir st of
        (v, st') \<Rightarrow>
          (if q = p \<and> disk_ops st' \<noteq> disk_ops st then 1 else 0) + touches env baseDir p qs st')"

text \<open>An environment and a state for examples: one shared definitions file on disk.\<close>

definition example_env :: environment where
  "example_env =
     \<lparr>path_resolve = (\<lambda>baseDir schemaPath. baseDir @ ''/'' @ schemaPath),
      disk = (\<lambda>fullPath.
        if fullPath = ''/schemas/common.schema.json''
        then JsonFile (JObj [(''$defs'', JObj [(''Proof'', JObj [(''type'', JStr ''object'')]),
                                               (''Tag'', JObj [(''type'', JStr ''string'')])])])
        else if fullPath = ''/schemas/broken.json'' then BadFile
        else NoFile)\<rparr>"

definition empty_state :: gen_state where
  "empty_state = \<lparr>schemaCache = Map.empty, disk_ops = []\<rparr>"

section \<open>Theorems\<close>

subsection \<open>Schema UID formatting\<close>

text \<open>
  Claim C9. \<open>formatSchemaUID\<close> is idempotent; on the empty string it returns the empty
  string; a non-empty string that does not start with \<open>0x\<close> gains exactly one \<open>0x\<close>
  prefix (the result is \<open>0x\<close> followed by the input); a string that starts with \<open>0x\<close> is
  returned unchanged.
\<close>

theorem formatSchemaUID_laws:
  "formatSchemaUID (formatSchemaUID x) = formatSchemaUID x
   \<and> formatSchemaUID [] = []
   \<and> (x \<noteq> [] \<and> \<not> startsWith x ''0x'' \<longrightarrow> formatSchemaUID x = ''0x'' @ x)
   \<and> (startsWith x ''0x'' \<longrightarrow> formatSchemaUID x = x)"
  by (auto simp: formatSchemaUID_def startsWith_def)

theorem formatSchemaUID_laws_witness:
  "formatSchemaUID ''ab12'' = ''0xab12'' \<and> formatSchemaUID ''0xab12'' = ''0xab12''
   \<and> formatSchemaUID (formatSchemaUID ''ab12'') = formatSchemaUID ''ab12''"
  using formatSchemaUID_laws [of "''ab12''"] formatSchemaUID_laws [of "''0xab12''"]
  by (simp add: startsWith_def)

subsection \<open>Keccak-256 and addresses: known answers\<close>

lemma keccak256_empty:
  "keccak256 [] = ''0xc5d2460186f7233c927e7db2dcc703c0e500b653ca82273b7bfad8045d85a470''"
  by code_simp

lemma getAddress_zero:
  "getAddress ''0x0000000000000000000000000000000000000000''
     = Inr ''0x0000000000000000000000000000000000000000''"
  by code_simp

lemma getAddress_checksum_example:
  "getAddress ''0x5aaeb6053f3e94c9b9a09f33669435e7ef1beaed''
     = Inr ''0x5aAeb6053F3E94C9b9A09f33669435E7Ef1BeAed''"
  by code_simp

lemma solidityPacked_zero_resolver:
  "solidityPacked schema ''0x0000000000000000000000000000000000000000'' True
     = Inr (toUtf8Bytes schema @ replicate 20 (CHR 0x00) @ [CHR 0x01])"
proof -
  have a: "getBytes ''0x0000000000000000000000000000000000000000'' = replicate 20 (CHR 0x00)"
    by code_simp
  have b: "getBytes ''0x01'' = [CHR 0x01]"
    by code_simp
  show ?thesis
    unfolding solidityPacked_def getAddress_zero using a b by simp
qed

lemma keccak256_reference_schema:
  "keccak256 (toUtf8Bytes ''uint256 schemaId, string msg5, bool isActive, string[] tags, uint256[] scores, string optionalDescription, bool[] statusFlags''
              @ replicate 20 (CHR 0x00) @ [CHR 0x01])
     = ''0xe97c0fcc6c37e9f782fd9917e3fa6d22ca1b52d8d936002be4babb55e82dadab''"
  by code_simp

subsection \<open>Schema UID calculation\<close>

text \<open>
  Claim C1. The EAS formula (\<open>calculateSchemaUID\<close> of easTools.ts), applied to the reference
  schema string, the zero resolver address and \<open>revocable = true\<close>, hashes the
  concatenation of the schema's UTF-8 bytes, twenty zero bytes and the byte \<open>0x01\<close>
  with Keccak-256, and returns exactly
  \<open>0xe97c0fcc6c37e9f782fd9917e3fa6d22ca1b52d8d936002be4babb55e82dadab\<close>.
\<close>

theorem calculateSchemaUID_easTools_reference:
  "calculateSchemaUID_easTools
     ''uint256 schemaId, string msg5, bool isActive, string[] tags, uint256[] scores, string optionalDescription, bool[] statusFlags''
     ''0x0000000000000000000000000000000000000000'' True
   = Inr ''0xe97c0fcc6c37e9f782fd9917e3fa6d22ca1b52d8d936002be4babb55e82dadab''
   \<and> calculateSchemaUID_easTools
     ''uint256 schemaId, string msg5, bool isActive, string[] tags, uint256[] scores, string optionalDescription, bool[] statusFlags''
     ''0x0000000000000000000000000000000000000000'' True
   = Inr (keccak256 (toUtf8Bytes ''uint256 schemaId, string msg5, bool isActive, string[] tags, uint256[] scores, string optionalDescription, bool[] statusFlags''
                       @ replicate 20 (CHR 0x00) @ [CHR 0x01]))"
  unfolding calculateSchemaUID_easTools_def solidityPacked_zero_resolver
  using keccak256_reference_schema by simp

text \<open>
  Claim C6. The BAS formula (\<open>calculateSchemaUID\<close> of basTools.ts) depends only on the
  schema string: for any two resolver addresses and revocable flags the result is the
  same, namely the Keccak-256 hash of the UTF-8 bytes of the schema string alone.
\<close>

theorem calculateSchemaUID_basTools_schema_only:
  "calculateSchemaUID_basTools s r1 v1 = calculateSchemaUID_basTools s r2 v2
   \<and> calculateSchemaUID_basTools s r1 v1 = keccak256 (toUtf8Bytes s)"
  by (simp add: calculateSchemaUID_basTools_def)

subsection \<open>DID canonicalisation\<close>

lemma canonicalizeDID_examples:
  "canonicalizeDID ''did:web:Example.COM/Path'' = Inr ''did:web:example.com/Path''"
  "canonicalizeDID ''did:pkh:eip155:1:0xABC'' = Inr ''did:pkh:eip155:1:0xabc''"
  "canonicalizeDID ''did:Key:Z6Mk'' = Inr ''did:key:z6mk''"
  by code_simp+

text \<open>
  Claim C10. \<open>canonicalizeDID\<close> throws on every string that does not start with \<open>did:\<close>,
  on every string with fewer than three colon-separated parts, and on every DID of
  method \<open>pkh\<close> whose number of colon-separated parts is not five; \<open>computeDidHash\<close> and
  \<open>didToIndexAddress\<close>, which call it, throw the same exception instead of returning an
  address.
\<close>

theorem canonicalizeDID_raises:
  assumes "\<not> startsWith did ''did:''
           \<or> length (split did (CHR '':'')) < 3
           \<or> (split did (CHR '':'') ! 1 = ''pkh'' \<and> length (split did (CHR '':'')) \<noteq> 5)"
  shows "\<exists>e. canonicalizeDID did = Inl e \<and> computeDidHash did = Inl e
              \<and> didToIndexAddress did = Inl e"
proof -
  from assms have "\<exists>e. canonicalizeDID did = Inl e"
    by (auto simp: canonicalizeDID_def Let_def)
  then obtain e where "canonicalizeDID did = Inl e" ..
  then show ?thesis
    by (simp add: computeDidHash_def didToIndexAddress_def)
qed

theorem canonicalizeDID_raises_witness:
  "(\<exists>e. canonicalizeDID ''0xabc'' = Inl e \<and> didToIndexAddress ''0xabc'' = Inl e)
   \<and> (\<exists>e. canonicalizeDID ''did:web'' = Inl e \<and> didToIndexAddress ''did:web'' = Inl e)
   \<and> (\<exists>e. canonicalizeDID ''did:pkh:eip155:0xabc'' = Inl e
            \<and> didToIndexAddress ''did:pkh:eip155:0xabc'' = Inl e)"
proof -
  have a: "\<not> startsWith ''0xabc'' ''did:''"
    by (simp add: startsWith_def)
  have b: "length (split ''did:web'' (CHR '':'')) < 3"
    by simp
  have c: "split ''did:pkh:eip155:0xabc'' (CHR '':'') ! 1 = ''pkh''
           \<and> length (split ''did:pkh:eip155:0xabc'' (CHR '':'')) \<noteq> 5"
    by simp
  show ?thesis
    using canonicalizeDID_raises [of "''0xabc''"] canonicalizeDID_raises [of "''did:web''"]
      canonicalizeDID_raises [of "''did:pkh:eip155:0xabc''"] a b c
    by blast
qed

subsection \<open>External schema cache\<close>

lemma loadExternalSchema_hit:
  "schemaCache st p = Some d \<Longrightarrow> loadExternalSchema env p bd st = (d, st)"
  by (simp add: loadExternalSchema_def)

lemma loadExternalSchema_success:
  "schemaCache st p = None \<Longrightarrow> disk env (path_resolve env bd p) = JsonFile d \<Longrightarrow>
   loadExternalSchema env p bd st =
     (d, st\<lparr>disk_ops := disk_ops st @ [ExistsSync (path_resolve env bd p), ReadFileSync (path_resolve env bd p)],
            schemaCache := (schemaCache st)(p \<mapsto> d)\<rparr>)"
  by (simp add: loadExternalSchema_def Let_def)

lemma loadExternalSchema_failure:
  "schemaCache st p = None \<Longrightarrow> disk env (path_resolve env bd p) \<noteq> JsonFile d' \<Longrightarrow>
   (\<forall>d. disk env (path_resolve env bd p) \<noteq> JsonFile d) \<Longrightarrow>
   fst (loadExternalSchema env p bd st) = JNull
   \<and> schemaCache (snd (loadExternalSchema env p bd st)) = schemaCache st
   \<and> disk_ops (snd (loadExternalSchema env p bd st)) \<noteq> disk_ops st"
  by (cases "disk env (path_resolve env bd p)") (simp_all add: loadExternalSchema_def Let_def)

subsection \<open>Type resolution\<close>

lemma pickPriorityType_eq:
  "types \<noteq> [] \<Longrightarrow>
   pickPriorityType types =
     Some (if ''object'' \<in> set types then ''object''
           else if ''array'' \<in> set types then ''array''
           else if ''string'' \<in> set types then ''string''
           else if ''integer'' \<in> set types then ''integer''
           else if ''number'' \<in> set types then ''number''
           else if ''boolean'' \<in> set types then ''boolean''
           else hd types)"
  by (cases types) (simp_all add: pickPriorityType_def order_def)

lemma mapM_js_String_strs: "mapM js_String (map JStr ts) = Inr ts"
  by (induction ts) simp_all

lemma mapM_toLowerCase_value_strs: "mapM toLowerCase_value (map JStr ts) = Inr (map toLowerCase ts)"
  by (induction ts) simp_all

lemma resolveJsonType_array:
  "get p ''type'' = Some (JArr (map JStr ts)) \<Longrightarrow>
   resolveJsonType p = Inr (pickPriorityType (map toLowerCase ts))"
  by (cases p) (simp_all add: resolveJsonType_def mapM_js_String_strs)

lemma resolveJsonType_branches:
  "truthy p \<Longrightarrow> (\<forall>v. get p ''type'' = Some v \<longrightarrow> \<not> is_JStr v \<and> \<not> is_JArr v) \<Longrightarrow>
   collectTypesFromBranches p = map JStr cs \<Longrightarrow> cs \<noteq> [] \<Longrightarrow>
   resolveJsonType p = Inr (pickPriorityType (map toLowerCase cs))"
  by (auto simp: resolveJsonType_def mapM_toLowerCase_value_strs split: option.splits json.splits)


subsection \<open>The stateful generator computes the cache-free reading\<close>

lemma cachedSchema_load:
  assumes "loadExternalSchema env p bd st = (v, st')"
  shows "v = cachedSchema env bd (schemaCache st) p
         \<and> cachedSchema env bd (schemaCache st') = cachedSchema env bd (schemaCache st)"
proof (cases "schemaCache st p")
  case (Some d)
  with assms show ?thesis
    by (auto simp: loadExternalSchema_def cachedSchema_def)
next
  case None
  show ?thesis
  proof (cases "disk env (path_resolve env bd p)")
    case NoFile
    with None assms show ?thesis
      by (auto simp: loadExternalSchema_def cachedSchema_def Let_def)
  next
    case BadFile
    with None assms show ?thesis
      by (auto simp: loadExternalSchema_def cachedSchema_def Let_def)
  next
    case (JsonFile d)
    with None assms have v: "v = d" and c: "schemaCache st' = (schemaCache st)(p \<mapsto> d)"
      by (auto simp: loadExternalSchema_def Let_def)
    have "cachedSchema env bd (schemaCache st') q = cachedSchema env bd (schemaCache st) q" for q
      using None JsonFile c by (simp add: cachedSchema_def)
    then show ?thesis
      using v None JsonFile by (auto simp: cachedSchema_def)
  qed
qed

lemma resolveRef_view:
  assumes "resolveRef env ref cs bd st = (v, st')"
  shows "v = resolveRef_in (cachedSchema env bd (schemaCache st)) ref cs
         \<and> cachedSchema env bd (schemaCache st') = cachedSchema env bd (schemaCache st)"
proof (cases "ref \<noteq> [] \<and> is_external ref")
  case False
  with assms show ?thesis
    by (auto simp: resolveRef_def resolveRef_in_def split: if_splits)
next
  case True
  obtain t st1 where l: "loadExternalSchema env (ref_filePath ref) bd st = (t, st1)"
    by (cases "loadExternalSchema env (ref_filePath ref) bd st") auto
  from cachedSchema_load [OF l] True assms l show ?thesis
    by (auto simp: resolveRef_def resolveRef_in_def Let_def split: if_splits)
qed

lemma resolveProperty_agrees:
  "agrees env bd st (resolveProperty env prop cs bd st)
     (resolveProperty_in (cachedSchema env bd (schemaCache st)) prop cs)"
proof -
  have r: "agrees env bd st
             (case resolveRef env ref cs bd st of
                (resolved, st') \<Rightarrow>
                  if truthy resolved then Inr (mergeResolved resolved prop, st') else Inr (prop, st'))
             (let resolved = resolveRef_in (cachedSchema env bd (schemaCache st)) ref cs
              in if truthy resolved then Inr (mergeResolved resolved prop) else Inr prop)" for ref
  proof -
    obtain v st1 where e: "resolveRef env ref cs bd st = (v, st1)"
      by (cases "resolveRef env ref cs bd st") auto
    from resolveRef_view [OF e] e show ?thesis
      by (simp add: agrees_def Let_def)
  qed
  show ?thesis
    unfolding resolveProperty_def resolveProperty_in_def
    using r by (auto simp: agrees_def split: option.splits json.splits)
qed

lemma resolveItems_agrees:
  "agrees env bd st (resolveItems env items cs bd st)
     (resolveItems_in (cachedSchema env bd (schemaCache st)) items cs bd)"
proof (cases "truthy_opt (get items ''$ref'') \<and> truthy cs \<and> bd \<noteq> []")
  case True
  then show ?thesis
    using resolveProperty_agrees [of env bd st items cs]
    by (simp add: resolveItems_def resolveItems_in_def)
next
  case False
  then show ?thesis
    by (auto simp: resolveItems_def resolveItems_in_def agrees_def)
qed

lemma agrees_InlD: "agrees env bd st r r' \<Longrightarrow> r = Inl e \<Longrightarrow> r' = Inl e"
  by (simp add: agrees_def)

lemma agrees_InrD:
  "agrees env bd st r r' \<Longrightarrow> r = Inr (v, st') \<Longrightarrow>
   r' = Inr v \<and> cachedSchema env bd (schemaCache st') = cachedSchema env bd (schemaCache st)"
  by (simp add: agrees_def)

lemma arrayItemType_agrees:
  "agrees env bd st (arrayItemType env p cs bd st)
     (arrayItemType_in (cachedSchema env bd (schemaCache st)) p cs bd)"
proof (cases "get p ''items''")
  case None
  then show ?thesis by (simp add: arrayItemType_def arrayItemType_in_def agrees_def)
next
  case (Some items)
  show ?thesis
  proof (cases "resolveItems env items cs bd st")
    case (Inl e)
    with agrees_InlD [OF resolveItems_agrees Inl] Some show ?thesis
      by (simp add: arrayItemType_def arrayItemType_in_def agrees_def)
  next
    case (Inr r)
    obtain ri st1 where r: "r = (ri, st1)" by (cases r) auto
    from agrees_InrD [OF resolveItems_agrees Inr [unfolded r]] Some Inr r show ?thesis
      by (auto simp: arrayItemType_def arrayItemType_in_def agrees_def split: sum.splits)
  qed
qed

lemma mapJsonSchemaPropertyToAbiType_agrees:
  "agrees env bd st (mapJsonSchemaPropertyToAbiType env p key cs bd st)
     (mapJsonSchemaPropertyToAbiType_in (cachedSchema env bd (schemaCache st)) p key cs bd)"
proof (cases "arrayItemType env p cs bd st")
  case (Inl e)
  with agrees_InlD [OF arrayItemType_agrees Inl] show ?thesis
    by (auto simp: mapJsonSchemaPropertyToAbiType_def mapJsonSchemaPropertyToAbiType_in_def
          agrees_def split: sum.splits)
next
  case (Inr r)
  obtain it st1 where r: "r = (it, st1)" by (cases r) auto
  from agrees_InrD [OF arrayItemType_agrees Inr [unfolded r]] Inr r show ?thesis
    by (auto simp: mapJsonSchemaPropertyToAbiType_def mapJsonSchemaPropertyToAbiType_in_def
          agrees_def split: sum.splits option.splits)
qed


lemma schemaField_agrees:
  "agrees env bd st (schemaField env cs bd key raw st)
     (case fieldAbiType (cachedSchema env bd (schemaCache st)) cs bd key raw of
        Inl e \<Rightarrow> Inl e
      | Inr t \<Rightarrow> Inr (map_option (\<lambda>t. t @ '' '' @ key) t))"
proof (cases "resolveProperty env raw cs bd st")
  case (Inl e)
  with agrees_InlD [OF resolveProperty_agrees Inl] show ?thesis
    by (simp add: schemaField_def fieldAbiType_def agrees_def)
next
  case (Inr r)
  obtain property st1 where r: "r = (property, st1)" by (cases r) auto
  from agrees_InrD [OF resolveProperty_agrees Inr [unfolded r]]
  have p: "resolveProperty_in (cachedSchema env bd (schemaCache st)) raw cs = Inr property"
    and v: "cachedSchema env bd (schemaCache st1) = cachedSchema env bd (schemaCache st)"
    by auto
  show ?thesis
  proof (cases "mapJsonSchemaPropertyToAbiType env property key cs bd st1")
    case (Inl e)
    from agrees_InlD [OF mapJsonSchemaPropertyToAbiType_agrees Inl] Inr r p v Inl
    show ?thesis
      by (simp add: schemaField_def fieldAbiType_def agrees_def)
  next
    case m: (Inr q)
    obtain abi st2 where q: "q = (abi, st2)" by (cases q) auto
    from agrees_InrD [OF mapJsonSchemaPropertyToAbiType_agrees m [unfolded q]] Inr r p v m q
    show ?thesis
      by (auto simp: schemaField_def fieldAbiType_def agrees_def abiField_def
            split: option.splits)
  qed
qed

lemma survivors_Nil [simp]: "survivors view cs bd [] = []"
  by (simp add: survivors_def List.map_filter_simps)

lemma survivors_Cons:
  "survivors view cs bd ((key, raw) # props) =
     (case fieldAbiType view cs bd key raw of Inr (Some t) \<Rightarrow> [(key, t)] | _ \<Rightarrow> [])
     @ survivors view cs bd props"
  by (simp add: survivors_def List.map_filter_simps split: sum.splits option.splits)

lemma survivors_append:
  "survivors view cs bd (xs @ ys) = survivors view cs bd xs @ survivors view cs bd ys"
  by (simp add: survivors_def List.map_filter_def)

lemma subseq_survivors: "subseq (map fst (survivors view cs bd props)) (map fst props)"
proof (induction props)
  case Nil
  show ?case by simp
next
  case (Cons a props)
  obtain key raw where a: "a = (key, raw)" by (cases a) auto
  show ?case
    using Cons.IH unfolding a survivors_Cons
    by (auto split: sum.splits option.splits)
qed

lemma schemaFields_survivors:
  "schemaFields env cs bd props acc st = Inr (out, st') \<Longrightarrow>
   out = acc @ map typeName (survivors (cachedSchema env bd (schemaCache st)) cs bd props)
   \<and> cachedSchema env bd (schemaCache st') = cachedSchema env bd (schemaCache st)"
proof (induction props arbitrary: acc st)
  case Nil
  then show ?case by simp
next
  case (Cons a props)
  obtain key raw where a: "a = (key, raw)" by (cases a) auto
  from Cons.prems obtain entry st1 where
    f: "schemaField env cs bd key raw st = Inr (entry, st1)"
    and rest: "schemaFields env cs bd props
                 (case entry of None \<Rightarrow> acc | Some f \<Rightarrow> acc @ [f]) st1 = Inr (out, st')"
    unfolding a by (auto split: sum.splits)
  from agrees_InrD [OF schemaField_agrees f]
  have e: "(case fieldAbiType (cachedSchema env bd (schemaCache st)) cs bd key raw of
              Inl e \<Rightarrow> Inl e
            | Inr t \<Rightarrow> Inr (map_option (\<lambda>t. t @ '' '' @ key) t)) = Inr entry"
    and v: "cachedSchema env bd (schemaCache st1) = cachedSchema env bd (schemaCache st)"
    by auto
  from Cons.IH [OF rest] v e show ?case
    unfolding a survivors_Cons
    by (auto simp: typeName_def split: sum.splits option.splits)
qed

lemma schemaFields_total:
  "(\<forall>(key, raw) \<in> set props.
      \<forall>e. fieldAbiType (cachedSchema env bd (schemaCache st)) cs bd key raw \<noteq> Inl e) \<Longrightarrow>
   \<exists>out st'. schemaFields env cs bd props acc st = Inr (out, st')"
proof (induction props arbitrary: acc st)
  case Nil
  then show ?case by simp
next
  case (Cons a props)
  obtain key raw where a: "a = (key, raw)" by (cases a) auto
  from Cons.prems a
  have ne: "\<forall>e. fieldAbiType (cachedSchema env bd (schemaCache st)) cs bd key raw \<noteq> Inl e"
    by auto
  have "\<exists>entry st1. schemaField env cs bd key raw st = Inr (entry, st1)"
  proof (cases "schemaField env cs bd key raw st")
    case (Inl e)
    from agrees_InlD [OF schemaField_agrees Inl] ne show ?thesis
      by (auto split: sum.splits)
  next
    case (Inr r)
    then show ?thesis by (cases r) auto
  qed
  then obtain entry st1 where f: "schemaField env cs bd key raw st = Inr (entry, st1)"
    by blast
  from agrees_InrD [OF schemaField_agrees f]
  have v: "cachedSchema env bd (schemaCache st1) = cachedSchema env bd (schemaCache st)"
    by auto
  from Cons.prems v
  have "\<forall>(key, raw) \<in> set props.
          \<forall>e. fieldAbiType (cachedSchema env bd (schemaCache st1)) cs bd key raw \<noteq> Inl e"
    by auto
  from Cons.IH [OF this] f show ?case
    unfolding a by simp
qed


subsection \<open>The cache over a run\<close>

lemma loadExternalSchema_keeps:
  "schemaCache st p = Some d \<Longrightarrow> schemaCache (snd (loadExternalSchema env q bd st)) p = Some d"
  by (cases "disk env (path_resolve env bd q)")
     (auto simp: loadExternalSchema_def Let_def split: option.splits)

lemma touches_cached:
  "schemaCache st p = Some d \<Longrightarrow> touches env bd p qs st = 0"
proof (induction qs arbitrary: st)
  case Nil
  show ?case by simp
next
  case (Cons q qs)
  obtain v st1 where l: "loadExternalSchema env q bd st = (v, st1)"
    by (cases "loadExternalSchema env q bd st") auto
  from loadExternalSchema_keeps [OF Cons.prems, of env q bd] l
  have c: "schemaCache st1 p = Some d" by simp
  have "q = p \<Longrightarrow> st1 = st"
    using loadExternalSchema_hit [OF Cons.prems, of env bd] l by simp
  with Cons.IH [OF c] l show ?case by auto
qed

lemma touches_once:
  "disk env (path_resolve env bd p) = JsonFile d \<Longrightarrow> touches env bd p qs st \<le> 1"
proof (induction qs arbitrary: st)
  case Nil
  show ?case by simp
next
  case (Cons q qs)
  obtain v st1 where l: "loadExternalSchema env q bd st = (v, st1)"
    by (cases "loadExternalSchema env q bd st") auto
  show ?case
  proof (cases "q = p")
    case False
    with Cons.IH [OF Cons.prems, of st1] l show ?thesis by simp
  next
    case True
    show ?thesis
    proof (cases "schemaCache st p")
      case (Some d')
      from loadExternalSchema_hit [OF Some, of env bd] l True have "st1 = st" by simp
      with Cons.IH [OF Cons.prems, of st] l True show ?thesis by simp
    next
      case None
      from loadExternalSchema_success [OF None Cons.prems] l True
      have "schemaCache st1 p = Some d" by auto
      from touches_cached [OF this] l show ?thesis by simp
    qed
  qed
qed

lemma loadExternalSchema_no_sentinel:
  assumes "schemaCache st p = None" and "\<forall>d. disk env (path_resolve env bd p) \<noteq> JsonFile d"
  shows "schemaCache (snd (loadExternalSchema env q bd st)) p = None"
proof (cases "q = p")
  case True
  with assms show ?thesis
    by (cases "disk env (path_resolve env bd p)")
       (auto simp: loadExternalSchema_def Let_def)
next
  case False
  with assms show ?thesis
    by (cases "disk env (path_resolve env bd q)")
       (auto simp: loadExternalSchema_def Let_def split: option.splits)
qed

lemma loadExternalSchema_failure_touches:
  assumes "schemaCache st p = None" and "\<forall>d. disk env (path_resolve env bd p) \<noteq> JsonFile d"
  shows "fst (loadExternalSchema env p bd st) = JNull
         \<and> disk_ops (snd (loadExternalSchema env p bd st)) \<noteq> disk_ops st"
  using assms
  by (cases "disk env (path_resolve env bd p)") (auto simp: loadExternalSchema_def Let_def)

lemma touches_retry:
  "schemaCache st p = None \<Longrightarrow> \<forall>d. disk env (path_resolve env bd p) \<noteq> JsonFile d \<Longrightarrow>
   touches env bd p qs st = count_list qs p"
proof (induction qs arbitrary: st)
  case Nil
  show ?case by simp
next
  case (Cons q qs)
  obtain v st1 where l: "loadExternalSchema env q bd st = (v, st1)"
    by (cases "loadExternalSchema env q bd st") auto
  from loadExternalSchema_no_sentinel [OF Cons.prems, of q] l
  have c: "schemaCache st1 p = None" by simp
  from loadExternalSchema_failure_touches [OF Cons.prems] l
  have "q = p \<Longrightarrow> disk_ops st1 \<noteq> disk_ops st" by auto
  with Cons.IH [OF c Cons.prems(2)] l show ?case by auto
qed

text \<open>
  Claim C8. A call of \<open>loadExternalSchema\<close> for a path that is in the cache returns the
  cached document and leaves the state as it is: no file system call is made. A call for
  a path that is not cached and whose file parses returns the document, after one
  \<^verbatim>\<open>existsSync\<close> and one \<^verbatim>\<open>readFileSync\<close>, and stores it under the relative path as given.
  So in any sequence of calls, at most one call for such a path goes to the disk. A call
  that fails (no file, or a file that cannot be read or parsed) returns \<^verbatim>\<open>null\<close> and
  leaves the cache as it was, without a sentinel; every later call for the same path
  goes to the disk again.
\<close>

theorem loadExternalSchema_cache:
  "(schemaCache st p = Some d \<longrightarrow> loadExternalSchema env p bd st = (d, st))
   \<and> (schemaCache st p = None \<and> disk env (path_resolve env bd p) = JsonFile d \<longrightarrow>
        loadExternalSchema env p bd st =
          (d, st\<lparr>disk_ops := disk_ops st @ [ExistsSync (path_resolve env bd p),
                                              ReadFileSync (path_resolve env bd p)],
                 schemaCache := (schemaCache st)(p \<mapsto> d)\<rparr>))
   \<and> (disk env (path_resolve env bd p) = JsonFile d \<longrightarrow> touches env bd p qs st \<le> 1)
   \<and> (schemaCache st p = None \<and> (\<forall>d'. disk env (path_resolve env bd p) \<noteq> JsonFile d') \<longrightarrow>
        fst (loadExternalSchema env p bd st) = JNull
        \<and> schemaCache (snd (loadExternalSchema env p bd st)) = schemaCache st
        \<and> disk_ops (snd (loadExternalSchema env p bd st)) \<noteq> disk_ops st
        \<and> touches env bd p qs st = count_list qs p)"
proof -
  have "schemaCache (snd (loadExternalSchema env p bd st)) = schemaCache st"
    if "schemaCache st p = None" and "\<forall>d'. disk env (path_resolve env bd p) \<noteq> JsonFile d'"
    using that
    by (cases "disk env (path_resolve env bd p)") (auto simp: loadExternalSchema_def Let_def)
  then show ?thesis
    using loadExternalSchema_hit [of st p d env bd] loadExternalSchema_success [of st p env bd d]
      touches_once [of env bd p d qs st] loadExternalSchema_failure_touches [of st p env bd]
      touches_retry [of st p env bd qs]
    by blast
qed

theorem loadExternalSchema_cache_witness:
  "loadExternalSchema example_env ''common.schema.json'' ''/schemas''
     (snd (loadExternalSchema example_env ''common.schema.json'' ''/schemas'' empty_state))
   = (JObj [(''$defs'', JObj [(''Proof'', JObj [(''type'', JStr ''object'')]),
                              (''Tag'', JObj [(''type'', JStr ''string'')])])],
      snd (loadExternalSchema example_env ''common.schema.json'' ''/schemas'' empty_state))
   \<and> disk_ops (snd (loadExternalSchema example_env ''common.schema.json'' ''/schemas'' empty_state))
       = [ExistsSync ''/schemas/common.schema.json'', ReadFileSync ''/schemas/common.schema.json'']
   \<and> touches example_env ''/schemas'' ''common.schema.json''
        [''common.schema.json'', ''broken.json'', ''common.schema.json'', ''common.schema.json'']
        empty_state \<le> 1
   \<and> fst (loadExternalSchema example_env ''broken.json'' ''/schemas'' empty_state) = JNull
   \<and> touches example_env ''/schemas'' ''broken.json''
        [''broken.json'', ''common.schema.json'', ''broken.json''] empty_state = 2
   \<and> touches example_env ''/schemas'' ''missing.json''
        [''missing.json'', ''missing.json'', ''missing.json''] empty_state = 3"
proof -
  let ?doc = "JObj [(''$defs'', JObj [(''Proof'', JObj [(''type'', JStr ''object'')]),
                                      (''Tag'', JObj [(''type'', JStr ''string'')])])]"
  let ?st1 = "snd (loadExternalSchema example_env ''common.schema.json'' ''/schemas'' empty_state)"
  have e: "schemaCache empty_state ''common.schema.json'' = None"
    "schemaCache empty_state ''broken.json'' = None"
    "schemaCache empty_state ''missing.json'' = None"
    by (simp_all add: empty_state_def)
  have d: "disk example_env (path_resolve example_env ''/schemas'' ''common.schema.json'') = JsonFile ?doc"
    by (simp add: example_env_def)
  have b: "\<forall>d'. disk example_env (path_resolve example_env ''/schemas'' ''broken.json'') \<noteq> JsonFile d'"
    by (simp add: example_env_def)
  have m: "\<forall>d'. disk example_env (path_resolve example_env ''/schemas'' ''missing.json'') \<noteq> JsonFile d'"
    by (simp add: example_env_def)
  have c1: "schemaCache ?st1 ''common.schema.json'' = Some ?doc"
    by (simp add: loadExternalSchema_def example_env_def empty_state_def Let_def)
  have o1: "disk_ops ?st1 = [ExistsSync ''/schemas/common.schema.json'', ReadFileSync ''/schemas/common.schema.json'']"
    by (simp add: loadExternalSchema_def example_env_def empty_state_def Let_def)
  have w1: "loadExternalSchema example_env ''common.schema.json'' ''/schemas'' ?st1 = (?doc, ?st1)"
    using loadExternalSchema_cache [of ?st1 "''common.schema.json''" ?doc example_env "''/schemas''" "[]"] c1
    by blast
  have w2: "touches example_env ''/schemas'' ''common.schema.json''
        [''common.schema.json'', ''broken.json'', ''common.schema.json'', ''common.schema.json'']
        empty_state \<le> 1"
    using loadExternalSchema_cache [of empty_state "''common.schema.json''" ?doc example_env "''/schemas''"
        "[''common.schema.json'', ''broken.json'', ''common.schema.json'', ''common.schema.json'']"] d
    by blast
  have w3: "fst (loadExternalSchema example_env ''broken.json'' ''/schemas'' empty_state) = JNull
      \<and> touches example_env ''/schemas'' ''broken.json''
          [''broken.json'', ''common.schema.json'', ''broken.json''] empty_state
        = count_list [''broken.json'', ''common.schema.json'', ''broken.json''] ''broken.json''"
    using loadExternalSchema_cache [of empty_state "''broken.json''" ?doc example_env "''/schemas''"
        "[''broken.json'', ''common.schema.json'', ''broken.json'']"] e(2) b
    by blast
  have w4: "touches example_env ''/schemas'' ''missing.json''
          [''missing.json'', ''missing.json'', ''missing.json''] empty_state
        = count_list [''missing.json'', ''missing.json'', ''missing.json''] ''missing.json''"
    using loadExternalSchema_cache [of empty_state "''missing.json''" ?doc example_env "''/schemas''"
        "[''missing.json'', ''missing.json'', ''missing.json'']"] e(3) m
    by blast
  have n: "count_list [''broken.json'', ''common.schema.json'', ''broken.json''] ''broken.json'' = 2"
    "count_list [''missing.json'', ''missing.json'', ''missing.json''] ''missing.json'' = 3"
    by simp_all
  show ?thesis
    using w1 o1 w2 w3 w4 unfolding n by blast
qed

end
